theory Spec2Isabelle
  imports Main "HOL-Library.Word"
begin

section \<open>QuizzlerV2: the survey ledger and its one-time proofs\<close>

text \<open>
  A shallow embedding of the Solidity contract \<^verbatim>\<open>QuizzlerV2\<close>. Storage is a record that
  every function takes and returns. A \<^verbatim>\<open>revert\<close> (and a panic of checked arithmetic) is the
  left summand of the result: it carries no storage, because the EVM discards every write
  and every event of a reverted call; \<open>transact\<close> below keeps the old storage then.
  What the contract gets from outside (the hash function, signature recovery, the clock,
  the caller, the gateway's token table, whether a token contract's \<^verbatim>\<open>transfer\<close> returns)
  is a field of the record \<open>env\<close>.
\<close>

subsection \<open>Values\<close>

type_synonym uint256 = "256 word"
type_synonym bytes32 = "256 word"
type_synonym address = "160 word"
type_synonym bytes = "8 word list"

datatype error =
    Quizzler__WrongSource
  | Quizzler__NoTokens
  | Quizzler__WrongSender
  | Quizzler__WrongMsgId
  | Quizzler_InvalidSigner
  | Quizzler__SurveyExists
  | Quizzler_InvalidRewardAmount
  | Quizzler_InvalidTrxValue
  | Quizzler__InvalidGasStationAddress
  | Quizzler__InvalidGasOwnerAddress
  | Quizzler__InvalidManagerAddress
  | Quizzler__SurveyDoesNotExist
  | Quizzler__SurveyAlreadyCanceled
  | Quizzler__OnlyCreatorOrManager
  | Quizzler__AllParticipantsRewarded
  | Quizzler__ArrayLengthMismatch
  | Quizzler__UserAlreadyRewarded
  | Quizzler__InvalidMessageHash
  | Quizzler__TokenAlreadyUsed
  | Quizzler__ProofExpired
  | Quizzler__ZeroAddress
  | Quizzler__SurveyCancelFailed
  | Quizzler__SurveyCreationFailed
  | Quizzler__RewardPaymentFailed
  | Panic_Arithmetic
  | Panic_ArrayIndex
  | AbiDecodeFailed
  | ECDSAInvalidSignature
  | ExternalCallReverted
  | OwnableUnauthorizedAccount

record SurveyStruct =
  surveyCreator :: address
  participantsLimit :: uint256
  rewardAmount :: uint256
  participantsRewarded :: uint256
  surveyHash :: bytes32
  rewardToken :: address
  isCanceled :: bool

text \<open>
  The events of the contract, and with them, in the order they happen, the calls of
  \<^verbatim>\<open>IERC20(token).transfer(to, amount)\<close> that the contract makes.
\<close>

datatype event =
    SurveyCreated string address uint256 uint256 bytes32
  | RewardPaid address string uint256
  | SurveyFinished string
  | SurveyCanceled string
  | UpdateManager address bool
  | ExecuteEventCompleted bytes32 uint256
  | ERC20Transfer address address uint256

record storage =
  gasStation :: address
  gasOwner :: address
  managers :: "address \<Rightarrow> bool"
  surveys :: "string \<Rightarrow> SurveyStruct"
  surveysUsersRewarded :: "string \<Rightarrow> address \<Rightarrow> bool"
  proofTokens :: "bytes32 \<Rightarrow> bool"
  emitted :: "event list"

text \<open>
  The surroundings of one call. \<open>ecdsa_recover\<close> is \<^verbatim>\<open>ECDSA.recover\<close> (\<open>None\<close> when the
  library reverts), \<open>toEthSignedMessageHash\<close> the library function of that name,
  \<open>contract_owner\<close> the owner kept by \<^verbatim>\<open>OwnableUpgradeable\<close>, \<open>transfer_returns\<close> whether
  the call of a token contract's \<^verbatim>\<open>transfer\<close> returns rather than reverts (the contract
  ignores the boolean that call returns).
\<close>

record env =
  msg_sender :: address
  block_timestamp :: uint256
  chainid :: uint256
  SENDER_HASH :: bytes32
  contract_owner :: address
  keccak256 :: "bytes \<Rightarrow> bytes32"
  toEthSignedMessageHash :: "bytes32 \<Rightarrow> bytes32"
  ecdsa_recover :: "bytes32 \<Rightarrow> bytes \<Rightarrow> address option"
  tokenAddresses :: "string \<Rightarrow> address"
  transfer_returns :: "address \<Rightarrow> address \<Rightarrow> uint256 \<Rightarrow> bool"

definition CREATE_SURVEY_MSG_ID :: uint256 where
  "CREATE_SURVEY_MSG_ID = 0"

definition CANCEL_SURVEY_MSG_ID :: uint256 where
  "CANCEL_SURVEY_MSG_ID = 1"

definition PAY_REWARDS_MSG_ID :: uint256 where
  "PAY_REWARDS_MSG_ID = 2"

subsection \<open>Checked arithmetic of Solidity 0.8\<close>

definition checked_mul :: "uint256 \<Rightarrow> uint256 \<Rightarrow> error + uint256" where
  "checked_mul a b = (if unat a * unat b < 2 ^ 256 then Inr (a * b) else Inl Panic_Arithmetic)"

definition checked_add :: "uint256 \<Rightarrow> uint256 \<Rightarrow> error + uint256" where
  "checked_add a b = (if unat a + unat b < 2 ^ 256 then Inr (a + b) else Inl Panic_Arithmetic)"

definition checked_sub :: "uint256 \<Rightarrow> uint256 \<Rightarrow> error + uint256" where
  "checked_sub a b = (if b \<le> a then Inr (a - b) else Inl Panic_Arithmetic)"

subsection \<open>Packed encoding\<close>

fun be_bytes :: "nat \<Rightarrow> nat \<Rightarrow> bytes" where
  "be_bytes 0 v = []"
| "be_bytes (Suc n) v = be_bytes n (v div 256) @ [word_of_nat (v mod 256)]"

definition enc_uint256 :: "uint256 \<Rightarrow> bytes" where
  "enc_uint256 w = be_bytes 32 (unat w)"

definition enc_address :: "address \<Rightarrow> bytes" where
  "enc_address a = be_bytes 20 (unat a)"

definition enc_string :: "string \<Rightarrow> bytes" where
  "enc_string s = map (\<lambda>c. word_of_nat (of_char c)) s"

definition AGORIC_CHAIN_HASH :: "env \<Rightarrow> bytes32" where
  "AGORIC_CHAIN_HASH E = keccak256 E (enc_string ''agoric'')"

definition getChainID :: "env \<Rightarrow> uint256" where
  "getChainID E = chainid E"

subsection \<open>Payloads\<close>

text \<open>
  A payload is ABI-encoded bytes; the model keeps its typed reading. Every handler first
  reads the leading word (the message id) and then decodes the whole payload as the tuple
  of its own kind, which reverts when the bytes are not of that shape. \<open>TooShort\<close> is a
  payload with no leading word, \<open>Undecodable\<close> a body that is no tuple of any kind.
\<close>

datatype payload_args =
    CreateArgs bytes bytes32 uint256 address string uint256 uint256 bytes32 uint256
  | CancelArgs bytes bytes32 uint256 string
  | RewardArgs bytes bytes32 uint256 "string list" "address list"
  | Undecodable

datatype payload = TooShort | Payload uint256 payload_args

fun decode_msgId :: "payload \<Rightarrow> error + uint256" where
  "decode_msgId TooShort = Inl AbiDecodeFailed"
| "decode_msgId (Payload i a) = Inr i"

subsection \<open>Views\<close>

definition getSurveyAmountToFund :: "storage \<Rightarrow> string \<Rightarrow> error + uint256" where
  "getSurveyAmountToFund s sid =
     checked_mul (participantsLimit (surveys s sid)) (rewardAmount (surveys s sid))"

definition getSurveysRewardsAmountPayded :: "storage \<Rightarrow> string \<Rightarrow> error + uint256" where
  "getSurveysRewardsAmountPayded s sid =
     checked_mul (participantsRewarded (surveys s sid)) (rewardAmount (surveys s sid))"

definition createProof ::
  "env \<Rightarrow> storage \<Rightarrow> bytes32 \<Rightarrow> uint256 \<Rightarrow> address \<Rightarrow> string \<Rightarrow> uint256 \<Rightarrow> uint256 \<Rightarrow> bytes32
     \<Rightarrow> uint256 \<Rightarrow> bytes32" where
  "createProof E s tok exp own sid lim rew h gas =
     (if proofTokens s tok then 0
      else keccak256 E
        (enc_uint256 (getChainID E) @ enc_uint256 tok @ enc_uint256 exp @ enc_address own
         @ enc_string sid @ enc_uint256 lim @ enc_uint256 rew @ enc_uint256 h
         @ enc_uint256 gas))"

definition cancelProof :: "env \<Rightarrow> storage \<Rightarrow> bytes32 \<Rightarrow> uint256 \<Rightarrow> string \<Rightarrow> bytes32" where
  "cancelProof E s tok exp sid =
     (if proofTokens s tok then 0
      else keccak256 E
        (enc_uint256 (getChainID E) @ enc_uint256 tok @ enc_uint256 exp @ enc_string sid))"

definition rewardProof ::
  "env \<Rightarrow> storage \<Rightarrow> bytes32 \<Rightarrow> uint256 \<Rightarrow> string list \<Rightarrow> address list \<Rightarrow> bytes32" where
  "rewardProof E s tok exp sids ps =
     (if proofTokens s tok then 0
      else keccak256 E
        (enc_uint256 (getChainID E) @ enc_uint256 tok @ enc_uint256 exp
         @ enc_uint256 (word_of_nat (length sids)) @ enc_uint256 (word_of_nat (length ps))))"

subsection \<open>Proof validation\<close>

definition getSigner :: "env \<Rightarrow> bytes32 \<Rightarrow> bytes \<Rightarrow> error + address" where
  "getSigner E m sg =
     (case ecdsa_recover E (toEthSignedMessageHash E m) sg of
        None \<Rightarrow> Inl ECDSAInvalidSignature
      | Some signer \<Rightarrow> Inr signer)"

definition preAuthValidations ::
  "env \<Rightarrow> storage \<Rightarrow> bytes32 \<Rightarrow> bytes32 \<Rightarrow> uint256 \<Rightarrow> bytes \<Rightarrow> error + address \<times> storage" where
  "preAuthValidations E s m tok exp sg =
     (if m = 0 then Inl Quizzler__InvalidMessageHash
      else if proofTokens s tok then Inl Quizzler__TokenAlreadyUsed
      else if exp < block_timestamp E then Inl Quizzler__ProofExpired
      else
       (case getSigner E m sg of
          Inl e \<Rightarrow> Inl e
        | Inr signer \<Rightarrow>
            if signer = 0 then Inl Quizzler__ZeroAddress
            else Inr (signer, s\<lparr>proofTokens := (proofTokens s)(tok := True)\<rparr>)))"

subsection \<open>Token transfers\<close>

definition erc20_transfer ::
  "env \<Rightarrow> storage \<Rightarrow> address \<Rightarrow> address \<Rightarrow> uint256 \<Rightarrow> error + storage" where
  "erc20_transfer E s token to amt =
     (if transfer_returns E token to amt
      then Inr (s\<lparr>emitted := emitted s @ [ERC20Transfer token to amt]\<rparr>)
      else Inl ExternalCallReverted)"

subsection \<open>The three handlers\<close>

text \<open>\<^verbatim>\<open>_handleCreateSurvey\<close>: the record is written before the funding is checked.\<close>

fun handleCreateSurvey ::
  "env \<Rightarrow> storage \<Rightarrow> payload \<Rightarrow> uint256 \<Rightarrow> address \<Rightarrow> error + bool \<times> storage" where
  "handleCreateSurvey E s (Payload i (CreateArgs sg tok exp own sid lim rew h gas)) amount tokenAddress =
     (case preAuthValidations E s (createProof E s tok exp own sid lim rew h gas) tok exp sg of
        Inl e \<Rightarrow> Inl e
      | Inr (signer, s1) \<Rightarrow>
          if \<not> managers s1 signer then Inl Quizzler_InvalidSigner
          else if surveyCreator (surveys s1 sid) \<noteq> 0 then Inl Quizzler__SurveyExists
          else
            (let s2 = s1\<lparr>surveys := (surveys s1)(sid :=
                  \<lparr>surveyCreator = msg_sender E, participantsLimit = lim, rewardAmount = rew,
                   participantsRewarded = 0, surveyHash = h, rewardToken = tokenAddress,
                   isCanceled = False\<rparr>)\<rparr>
             in (case checked_mul lim rew of
                  Inl e \<Rightarrow> Inl e
                | Inr amountToSurvey \<Rightarrow>
                   (case checked_add amountToSurvey gas of
                      Inl e \<Rightarrow> Inl e
                    | Inr needed \<Rightarrow>
                        if amount \<noteq> needed then Inl Quizzler_InvalidTrxValue
                        else
                          (case getSurveyAmountToFund s2 sid of
                             Inl e \<Rightarrow> Inl e
                           | Inr fund \<Rightarrow>
                               if amountToSurvey \<noteq> fund then Inl Quizzler_InvalidRewardAmount
                               else
                                 (case erc20_transfer E s2 tokenAddress (gasStation s2) gas of
                                    Inl e \<Rightarrow> Inl e
                                  | Inr s3 \<Rightarrow>
                                      Inr (True, s3\<lparr>emitted := emitted s3 @
                                        [SurveyCreated sid (msg_sender E) lim rew h]\<rparr>)))))))"
| "handleCreateSurvey E s p amount tokenAddress = Inl AbiDecodeFailed"

text \<open>\<^verbatim>\<open>_handleCancelSurvey\<close>: four checks of the survey, then the proof, then the refund.\<close>

definition handleCancelSurvey ::
  "env \<Rightarrow> storage \<Rightarrow> bytes \<Rightarrow> bytes32 \<Rightarrow> uint256 \<Rightarrow> string \<Rightarrow> error + bool \<times> storage" where
  "handleCancelSurvey E s sg tok exp sid =
     (if surveyCreator (surveys s sid) = 0 then Inl Quizzler__SurveyDoesNotExist
      else if isCanceled (surveys s sid) then Inl Quizzler__SurveyAlreadyCanceled
      else if msg_sender E \<noteq> surveyCreator (surveys s sid) \<and> \<not> managers s (msg_sender E)
        then Inl Quizzler__OnlyCreatorOrManager
      else if participantsLimit (surveys s sid) \<le> participantsRewarded (surveys s sid)
        then Inl Quizzler__AllParticipantsRewarded
      else
       (case preAuthValidations E s (cancelProof E s tok exp sid) tok exp sg of
          Inl e \<Rightarrow> Inl e
        | Inr (signer, s1) \<Rightarrow>
            if \<not> managers s1 signer then Inl Quizzler_InvalidSigner
            else
             (case getSurveyAmountToFund s1 sid of
                Inl e \<Rightarrow> Inl e
              | Inr fund \<Rightarrow>
                 (case getSurveysRewardsAmountPayded s1 sid of
                    Inl e \<Rightarrow> Inl e
                  | Inr paid \<Rightarrow>
                     (case checked_sub fund paid of
                        Inl e \<Rightarrow> Inl e
                      | Inr returnAmount \<Rightarrow>
                         (case erc20_transfer E s1 (rewardToken (surveys s1 sid))
                                 (surveyCreator (surveys s1 sid)) returnAmount of
                            Inl e \<Rightarrow> Inl e
                          | Inr s2 \<Rightarrow>
                              Inr (True, s2\<lparr>surveys := (surveys s2)(sid :=
                                       (surveys s2 sid)\<lparr>isCanceled := True\<rparr>),
                                     emitted := emitted s2 @ [SurveyCanceled sid]\<rparr>)))))))"

text \<open>The body of the loop of \<^verbatim>\<open>_handleRewardPayment\<close>, for one pair of the batch.\<close>

definition rewardStep :: "env \<Rightarrow> storage \<Rightarrow> string \<Rightarrow> address \<Rightarrow> error + storage" where
  "rewardStep E s sid p =
     (if isCanceled (surveys s sid) then Inl Quizzler__SurveyAlreadyCanceled
      else if participantsLimit (surveys s sid) \<le> participantsRewarded (surveys s sid)
        then Inl Quizzler__AllParticipantsRewarded
      else if surveysUsersRewarded s sid p then Inl Quizzler__UserAlreadyRewarded
      else
       (case erc20_transfer E s (rewardToken (surveys s sid)) p (rewardAmount (surveys s sid)) of
          Inl e \<Rightarrow> Inl e
        | Inr s1 \<Rightarrow>
           (case checked_add (participantsRewarded (surveys s1 sid)) 1 of
              Inl e \<Rightarrow> Inl e
            | Inr r \<Rightarrow>
                let s2 = s1\<lparr>surveys := (surveys s1)(sid :=
                             (surveys s1 sid)\<lparr>participantsRewarded := r\<rparr>),
                           surveysUsersRewarded := (surveysUsersRewarded s1)(sid :=
                             (surveysUsersRewarded s1 sid)(p := True))\<rparr>;
                    s3 = s2\<lparr>emitted := emitted s2 @
                             [RewardPaid p sid (rewardAmount (surveys s2 sid))]\<rparr>
                in Inr (if participantsRewarded (surveys s3 sid) = participantsLimit (surveys s3 sid)
                        then s3\<lparr>emitted := emitted s3 @ [SurveyFinished sid]\<rparr>
                        else s3))))"

text \<open>
  The loop runs over the participants and reads the survey id of the same index; an
  index past the end of the ids is the panic of an array read out of range.
\<close>

fun rewardLoop :: "env \<Rightarrow> storage \<Rightarrow> string list \<Rightarrow> address list \<Rightarrow> error + storage" where
  "rewardLoop E s sids [] = Inr s"
| "rewardLoop E s [] (p # ps) = Inl Panic_ArrayIndex"
| "rewardLoop E s (sid # sids) (p # ps) =
     (case rewardStep E s sid p of
        Inl e \<Rightarrow> Inl e
      | Inr s1 \<Rightarrow> rewardLoop E s1 sids ps)"

definition handleRewardPayment ::
  "env \<Rightarrow> storage \<Rightarrow> bytes \<Rightarrow> bytes32 \<Rightarrow> uint256 \<Rightarrow> string list \<Rightarrow> address list
     \<Rightarrow> error + bool \<times> storage" where
  "handleRewardPayment E s sg tok exp sids ps =
     (if length sids \<noteq> length ps then Inl Quizzler__ArrayLengthMismatch
      else
       (case preAuthValidations E s (rewardProof E s tok exp sids ps) tok exp sg of
          Inl e \<Rightarrow> Inl e
        | Inr (signer, s1) \<Rightarrow>
            if \<not> managers s1 signer then Inl Quizzler_InvalidSigner
            else
             (case rewardLoop E s1 sids ps of
                Inl e \<Rightarrow> Inl e
              | Inr s2 \<Rightarrow> Inr (True, s2))))"

subsection \<open>The router\<close>

text \<open>\<^verbatim>\<open>_executeWithToken\<close>.\<close>

definition executeWithToken_impl ::
  "env \<Rightarrow> storage \<Rightarrow> bytes32 \<Rightarrow> string \<Rightarrow> string \<Rightarrow> payload \<Rightarrow> string \<Rightarrow> uint256 \<Rightarrow> error + storage" where
  "executeWithToken_impl E s commandId sourceChain sourceAddress pl tokenSymbol amount =
     (if keccak256 E (enc_string sourceChain) \<noteq> AGORIC_CHAIN_HASH E then Inl Quizzler__WrongSource
      else if keccak256 E (enc_string sourceAddress) \<noteq> SENDER_HASH E then Inl Quizzler__WrongSender
      else if 0 < amount then Inl Quizzler__NoTokens
      else
       (let tokenAddress = tokenAddresses E tokenSymbol
        in (case decode_msgId pl of
             Inl e \<Rightarrow> Inl e
           | Inr msgId \<Rightarrow>
               if msgId \<noteq> CREATE_SURVEY_MSG_ID then Inl Quizzler__WrongMsgId
               else
                (case handleCreateSurvey E s pl amount tokenAddress of
                   Inl e \<Rightarrow> Inl e
                 | Inr (ok, s1) \<Rightarrow>
                     if \<not> ok then Inl Quizzler__SurveyCreationFailed
                     else Inr (s1\<lparr>emitted := emitted s1 @
                            [ExecuteEventCompleted commandId msgId]\<rparr>)))))"

text \<open>\<^verbatim>\<open>_execute\<close>.\<close>

fun dispatch_cancel :: "env \<Rightarrow> storage \<Rightarrow> payload \<Rightarrow> error + bool \<times> storage" where
  "dispatch_cancel E s (Payload i (CancelArgs sg tok exp sid)) = handleCancelSurvey E s sg tok exp sid"
| "dispatch_cancel E s p = Inl AbiDecodeFailed"

fun dispatch_reward :: "env \<Rightarrow> storage \<Rightarrow> payload \<Rightarrow> error + bool \<times> storage" where
  "dispatch_reward E s (Payload i (RewardArgs sg tok exp sids ps)) =
     handleRewardPayment E s sg tok exp sids ps"
| "dispatch_reward E s p = Inl AbiDecodeFailed"

definition execute_impl ::
  "env \<Rightarrow> storage \<Rightarrow> bytes32 \<Rightarrow> string \<Rightarrow> string \<Rightarrow> payload \<Rightarrow> error + storage" where
  "execute_impl E s commandId sourceChain sourceAddress pl =
     (if keccak256 E (enc_string sourceChain) \<noteq> AGORIC_CHAIN_HASH E then Inl Quizzler__WrongSource
      else if keccak256 E (enc_string sourceAddress) \<noteq> SENDER_HASH E then Inl Quizzler__WrongSender
      else
       (case decode_msgId pl of
          Inl e \<Rightarrow> Inl e
        | Inr msgId \<Rightarrow>
            if msgId = CANCEL_SURVEY_MSG_ID then
              (case dispatch_cancel E s pl of
                 Inl e \<Rightarrow> Inl e
               | Inr (ok, s1) \<Rightarrow>
                   if \<not> ok then Inl Quizzler__SurveyCancelFailed
                   else Inr (s1\<lparr>emitted := emitted s1 @ [ExecuteEventCompleted commandId msgId]\<rparr>))
            else if msgId = PAY_REWARDS_MSG_ID then
              (case dispatch_reward E s pl of
                 Inl e \<Rightarrow> Inl e
               | Inr (ok, s1) \<Rightarrow>
                   if \<not> ok then Inl Quizzler__RewardPaymentFailed
                   else Inr (s1\<lparr>emitted := emitted s1 @ [ExecuteEventCompleted commandId msgId]\<rparr>))
            else Inl Quizzler__WrongMsgId))"

subsection \<open>Administration\<close>

definition setManager :: "env \<Rightarrow> storage \<Rightarrow> address \<Rightarrow> bool \<Rightarrow> error + storage" where
  "setManager E s m status =
     (if msg_sender E \<noteq> contract_owner E then Inl OwnableUnauthorizedAccount
      else if m = 0 then Inl Quizzler__InvalidManagerAddress
      else Inr (s\<lparr>managers := (managers s)(m := status),
                  emitted := emitted s @ [UpdateManager m status]\<rparr>))"

definition setGasStation :: "env \<Rightarrow> storage \<Rightarrow> address \<Rightarrow> address \<Rightarrow> error + storage" where
  "setGasStation E s gs go =
     (if msg_sender E \<noteq> contract_owner E then Inl OwnableUnauthorizedAccount
      else if gs = 0 then Inl Quizzler__InvalidGasStationAddress
      else if go = 0 then Inl Quizzler__InvalidGasOwnerAddress
      else Inr (s\<lparr>gasStation := gs, gasOwner := go\<rparr>))"

subsection \<open>Transactions\<close>

text \<open>
  The calls that change storage: the two deliveries of the gateway, the two functions of
  the owner, and \<^verbatim>\<open>preAuthValidations\<close>, which the contract declares \<^verbatim>\<open>public\<close>. A call that
  reverts leaves storage and events as they were. The inherited entry points ask the
  gateway to approve a delivery before they call \<^verbatim>\<open>_execute\<close> or \<^verbatim>\<open>_executeWithToken\<close>;
  a delivery the gateway refuses reverts there, and here every delivery is let through.
\<close>

datatype tx =
    ExecuteWithToken bytes32 string string payload string uint256
  | Execute bytes32 string string payload
  | SetManager address bool
  | SetGasStation address address
  | PreAuthValidations bytes32 bytes32 uint256 bytes

fun call :: "env \<Rightarrow> storage \<Rightarrow> tx \<Rightarrow> error + storage" where
  "call E s (ExecuteWithToken c sc sa pl tsym amount) = executeWithToken_impl E s c sc sa pl tsym amount"
| "call E s (Execute c sc sa pl) = execute_impl E s c sc sa pl"
| "call E s (SetManager m status) = setManager E s m status"
| "call E s (SetGasStation gs go) = setGasStation E s gs go"
| "call E s (PreAuthValidations m tok exp sg) =
     (case preAuthValidations E s m tok exp sg of
        Inl e \<Rightarrow> Inl e
      | Inr (signer, s1) \<Rightarrow> Inr s1)"

definition transact :: "env \<Rightarrow> storage \<Rightarrow> tx \<Rightarrow> storage" where
  "transact E s t = (case call E s t of Inl e \<Rightarrow> s | Inr s1 \<Rightarrow> s1)"

fun run :: "(env \<times> tx) list \<Rightarrow> storage \<Rightarrow> storage" where
  "run [] s = s"
| "run ((E, t) # rest) s = run rest (transact E s t)"

text \<open>Storage after construction and \<^verbatim>\<open>initialize()\<close> called by \<open>deployer\<close>.\<close>

definition deployed :: "address \<Rightarrow> storage" where
  "deployed deployer =
     \<lparr>gasStation = 0, gasOwner = 0,
      managers = (\<lambda>a. False)(deployer := True),
      surveys = (\<lambda>sid. \<lparr>surveyCreator = 0, participantsLimit = 0, rewardAmount = 0,
                        participantsRewarded = 0, surveyHash = 0, rewardToken = 0,
                        isCanceled = False\<rparr>),
      surveysUsersRewarded = (\<lambda>sid a. False),
      proofTokens = (\<lambda>t. False),
      emitted = []\<rparr>"

subsection \<open>Concrete surroundings for worked examples\<close>

text \<open>
  A toy instance of the surroundings: the hash is one more than the length of its input,
  a signature of \<open>n\<close> bytes recovers to the address \<open>n - 1\<close> (so one byte recovers
  to the zero address, two bytes to address 1) and no signature is rejected by the library
  but the empty one. The clock stands at 100 and the caller is address 9.
\<close>

definition env0 :: env where
  "env0 = \<lparr>msg_sender = 9, block_timestamp = 100, chainid = 1, SENDER_HASH = 7,
            contract_owner = 1,
            keccak256 = (\<lambda>bs. 1 + word_of_nat (length bs)),
            toEthSignedMessageHash = (\<lambda>m. m + 1),
            ecdsa_recover = (\<lambda>m sg. if sg = [] then None else Some (word_of_nat (length sg) - 1)),
            tokenAddresses = (\<lambda>sy. 5),
            transfer_returns = (\<lambda>t a v. True)\<rparr>"

text \<open>
  Three ledgers around the survey \<open>S2\<close> of limit 3 and reward 5, created by address 9, with
  one participant rewarded: open, canceled, and with all three rewarded.
\<close>

definition st_S2 :: storage where
  "st_S2 = (deployed 1)\<lparr>surveys := (surveys (deployed 1))(''S2'' :=
      \<lparr>surveyCreator = 9, participantsLimit = 3, rewardAmount = 5, participantsRewarded = 1,
       surveyHash = 0, rewardToken = 5, isCanceled = False\<rparr>)\<rparr>"

definition st_S2_canceled :: storage where
  "st_S2_canceled =
     st_S2\<lparr>surveys := (surveys st_S2)(''S2'' := (surveys st_S2 ''S2'')\<lparr>isCanceled := True\<rparr>)\<rparr>"

definition st_S2_full :: storage where
  "st_S2_full =
     st_S2\<lparr>surveys := (surveys st_S2)(''S2'' := (surveys st_S2 ''S2'')\<lparr>participantsRewarded := 3\<rparr>)\<rparr>"

text \<open>The bound of claim C4, for every survey of a ledger.\<close>

definition within_limit :: "storage \<Rightarrow> bool" where
  "within_limit s =
     (\<forall>sid. participantsRewarded (surveys s sid) \<le> participantsLimit (surveys s sid))"

text \<open>
  Deliveries for worked examples: the create of survey \<open>S1\<close> with limit 2 and reward 0 (a
  create delivers no tokens, so nothing with a price can be created), and a batch that pays
  one participant of \<open>S1\<close>.
\<close>

definition create_S1 :: tx where
  "create_S1 = ExecuteWithToken 3 ''agoric'' ''sender''
     (Payload 0 (CreateArgs [1, 2] 77 200 4 ''S1'' 2 0 0 0)) ''aUSDC'' 0"

definition pay_S1 :: "bytes32 \<Rightarrow> address \<Rightarrow> tx" where
  "pay_S1 tok p = Execute 3 ''agoric'' ''sender'' (Payload 2 (RewardArgs [1, 2] tok 200 [''S1''] [p]))"

text \<open>
  What claim C9 needs of one survey of a ledger: a survey without creator has limit 0, a
  canceled survey is not fully rewarded, and the ledger's events hold the finished signal of
  the survey once when its count has reached a positive limit and not at all otherwise.
\<close>

definition finished_inv :: "storage \<Rightarrow> string \<Rightarrow> bool" where
  "finished_inv s sid =
     ((surveyCreator (surveys s sid) = 0 \<longrightarrow> participantsLimit (surveys s sid) = 0)
      \<and> (isCanceled (surveys s sid)
           \<longrightarrow> participantsRewarded (surveys s sid) < participantsLimit (surveys s sid))
      \<and> count_list (emitted s) (SurveyFinished sid) =
          (if 0 < participantsLimit (surveys s sid)
              \<and> participantsRewarded (surveys s sid) = participantsLimit (surveys s sid)
           then 1 else 0))"

text \<open>The cancel of \<open>S2\<close> by its creator with a manager's signature.\<close>

definition cancel_S2 :: tx where
  "cancel_S2 = Execute 3 ''agoric'' ''sender'' (Payload 1 (CancelArgs [1, 2] 77 200 ''S2''))"

section \<open>Basic facts\<close>

lemma length_be_bytes: "length (be_bytes n v) = n"
  by (induction n arbitrary: v) simp_all

lemma length_enc:
  "length (enc_uint256 w) = 32" "length (enc_address a) = 20" "length (enc_string x) = length x"
  by (simp_all add: enc_uint256_def enc_address_def enc_string_def length_be_bytes)

lemma checked_mul_Inr: "checked_mul a b = Inr c \<Longrightarrow> unat c = unat a * unat b"
  by (auto simp: checked_mul_def unat_mult_lem [symmetric] split: if_splits)

lemma checked_add_Inr: "checked_add a b = Inr c \<Longrightarrow> unat c = unat a + unat b"
  by (auto simp: checked_add_def unat_add_lem [symmetric] split: if_splits)

lemma checked_sub_Inr: "checked_sub a b = Inr c \<Longrightarrow> unat c = unat a - unat b"
  by (auto simp: checked_sub_def unat_sub split: if_splits)

lemma preAuth_Inr:
  "preAuthValidations E s m tok exp sg = Inr (a, s1) \<Longrightarrow>
     s1 = s\<lparr>proofTokens := (proofTokens s)(tok := True)\<rparr> \<and> \<not> proofTokens s tok \<and> m \<noteq> 0
     \<and> \<not> exp < block_timestamp E \<and> getSigner E m sg = Inr a \<and> a \<noteq> 0"
  by (auto simp: preAuthValidations_def split: if_splits sum.splits)

lemma handleCreate_needs_amount:
  assumes "handleCreateSurvey E s (Payload i (CreateArgs sg tok exp own sid lim rew h gas)) amount ta = Inr r"
  shows "unat amount = unat lim * unat rew + unat gas"
  using assms
  by (auto simp: Let_def split: sum.splits if_splits prod.splits
      dest!: checked_mul_Inr checked_add_Inr)

lemma unat_mul_256: "unat (a::uint256) * unat b < 2 ^ 256 \<Longrightarrow> unat (a * b) = unat a * unat b"
  using unat_mult_lem [of a b] by simp

lemma unat_add_256: "unat (a::uint256) + unat b < 2 ^ 256 \<Longrightarrow> unat (a + b) = unat a + unat b"
  using unat_add_lem [of a b] by simp

lemma transact_failed: "isl (call E s t) \<Longrightarrow> transact E s t = s"
  by (cases "call E s t") (simp_all add: transact_def)

lemma execute_cancel_error:
  "handleCancelSurvey E s sg tok exp sid = Inl e \<Longrightarrow>
   isl (execute_impl E s c sc sa (Payload i (CancelArgs sg tok exp sid)))"
  by (auto simp: execute_impl_def split: sum.splits)

lemma st_S2_facts:
  "surveys st_S2 ''S2'' = \<lparr>surveyCreator = 9, participantsLimit = 3, rewardAmount = 5,
     participantsRewarded = 1, surveyHash = 0, rewardToken = 5, isCanceled = False\<rparr>"
  "managers st_S2 = (\<lambda>a. False)(1 := True)"
  "proofTokens st_S2 = (\<lambda>t. False)"
  "emitted st_S2 = []"
  by (simp_all add: st_S2_def deployed_def)


lemma deployed_no_S2: "surveyCreator (surveys (deployed 1) ''S2'') = 0"
    by (simp add: deployed_def)
lemma st_S2_canceled_facts: "surveyCreator (surveys st_S2_canceled ''S2'') \<noteq> 0"
    "isCanceled (surveys st_S2_canceled ''S2'')"
    by (simp_all add: st_S2_canceled_def st_S2_facts)

lemma st_S2_stranger: "surveyCreator (surveys st_S2 ''S2'') \<noteq> 0" "\<not> isCanceled (surveys st_S2 ''S2'')"
    "msg_sender (env0\<lparr>msg_sender := 8\<rparr>) \<noteq> surveyCreator (surveys st_S2 ''S2'')"
    "\<not> managers st_S2 (msg_sender (env0\<lparr>msg_sender := 8\<rparr>))"
    by (simp_all add: st_S2_facts)
lemma st_S2_full_facts: "surveyCreator (surveys st_S2_full ''S2'') \<noteq> 0"
    "\<not> isCanceled (surveys st_S2_full ''S2'')"
    "msg_sender env0 = surveyCreator (surveys st_S2_full ''S2'')"
    "participantsLimit (surveys st_S2_full ''S2'') \<le> participantsRewarded (surveys st_S2_full ''S2'')"
    by (simp_all add: st_S2_full_def st_S2_facts env0_def)

subsection \<open>What a call that returns has done\<close>

lemma erc20_transfer_Inr:
  "erc20_transfer E s t a v = Inr s' \<Longrightarrow> s' = s\<lparr>emitted := emitted s @ [ERC20Transfer t a v]\<rparr>"
  by (auto simp: erc20_transfer_def split: if_splits)

lemma checked_add_one:
  "checked_add a 1 = Inr r \<Longrightarrow> r = a + 1"
  by (auto simp: checked_add_def split: if_splits)

lemma rewardStep_Inr:
  assumes "rewardStep E s sid p = Inr s'"
  shows "\<not> isCanceled (surveys s sid)"
    and "participantsRewarded (surveys s sid) < participantsLimit (surveys s sid)"
    and "\<not> surveysUsersRewarded s sid p"
    and "surveys s' = (surveys s)(sid := (surveys s sid)
           \<lparr>participantsRewarded := participantsRewarded (surveys s sid) + 1\<rparr>)"
    and "surveysUsersRewarded s' = (surveysUsersRewarded s)(sid := (surveysUsersRewarded s sid)(p := True))"
    and "emitted s' = emitted s @
           [ERC20Transfer (rewardToken (surveys s sid)) p (rewardAmount (surveys s sid)),
            RewardPaid p sid (rewardAmount (surveys s sid))] @
           (if participantsRewarded (surveys s sid) + 1 = participantsLimit (surveys s sid)
            then [SurveyFinished sid] else [])"
    and "proofTokens s' = proofTokens s"
    and "managers s' = managers s"
    and "gasStation s' = gasStation s"
    and "gasOwner s' = gasOwner s"
  using assms
  by (auto simp: rewardStep_def Let_def not_le split: if_splits sum.splits
      dest!: erc20_transfer_Inr checked_add_one)

lemma rewardLoop_frame:
  "rewardLoop E s sids ps = Inr s' \<Longrightarrow>
     proofTokens s' = proofTokens s \<and> managers s' = managers s
     \<and> gasStation s' = gasStation s \<and> gasOwner s' = gasOwner s"
proof (induction E s sids ps rule: rewardLoop.induct)
  case (3 E s sid sids p ps)
  then show ?case
    by (auto split: sum.splits dest: rewardStep_Inr(7-10))
qed simp_all

lemma handleCreate_Inr:
  assumes "handleCreateSurvey E s (Payload i (CreateArgs sg tok exp own sid lim rew h gas)) amount ta
             = Inr (ok, s')"
  shows "ok"
    and "\<exists>a s1. preAuthValidations E s (createProof E s tok exp own sid lim rew h gas) tok exp sg
            = Inr (a, s1) \<and> managers s a"
    and "surveyCreator (surveys s sid) = 0"
    and "surveys s' = (surveys s)(sid :=
           \<lparr>surveyCreator = msg_sender E, participantsLimit = lim, rewardAmount = rew,
            participantsRewarded = 0, surveyHash = h, rewardToken = ta, isCanceled = False\<rparr>)"
    and "emitted s' = emitted s @
           [ERC20Transfer ta (gasStation s) gas, SurveyCreated sid (msg_sender E) lim rew h]"
    and "proofTokens s' = (proofTokens s)(tok := True)"
    and "managers s' = managers s"
    and "surveysUsersRewarded s' = surveysUsersRewarded s"
    and "gasStation s' = gasStation s"
    and "gasOwner s' = gasOwner s"
  using assms
  by (auto simp: Let_def split: sum.splits if_splits prod.splits
      dest!: preAuth_Inr erc20_transfer_Inr)

lemma handleCancel_Inr:
  assumes "handleCancelSurvey E s sg tok exp sid = Inr (ok, s')"
  shows "ok"
    and "surveyCreator (surveys s sid) \<noteq> 0"
    and "\<not> isCanceled (surveys s sid)"
    and "msg_sender E = surveyCreator (surveys s sid) \<or> managers s (msg_sender E)"
    and "participantsRewarded (surveys s sid) < participantsLimit (surveys s sid)"
    and "\<exists>a s1. preAuthValidations E s (cancelProof E s tok exp sid) tok exp sg = Inr (a, s1)
            \<and> managers s a"
    and "\<exists>fund paid. getSurveyAmountToFund s sid = Inr fund
            \<and> getSurveysRewardsAmountPayded s sid = Inr paid \<and> paid \<le> fund
            \<and> emitted s' = emitted s @
                 [ERC20Transfer (rewardToken (surveys s sid)) (surveyCreator (surveys s sid))
                    (fund - paid),
                  SurveyCanceled sid]"
    and "surveys s' = (surveys s)(sid := (surveys s sid)\<lparr>isCanceled := True\<rparr>)"
    and "proofTokens s' = (proofTokens s)(tok := True)"
    and "managers s' = managers s"
    and "surveysUsersRewarded s' = surveysUsersRewarded s"
    and "gasStation s' = gasStation s"
    and "gasOwner s' = gasOwner s"
  using assms
  by (auto simp: handleCancelSurvey_def getSurveyAmountToFund_def getSurveysRewardsAmountPayded_def
        checked_sub_def not_le
      split: sum.splits if_splits prod.splits
      dest!: preAuth_Inr erc20_transfer_Inr)

lemma handleReward_Inr:
  assumes "handleRewardPayment E s sg tok exp sids ps = Inr (ok, s')"
  shows "ok"
    and "length sids = length ps"
    and "\<exists>a s1. preAuthValidations E s (rewardProof E s tok exp sids ps) tok exp sg = Inr (a, s1)
            \<and> managers s a"
    and "rewardLoop E (s\<lparr>proofTokens := (proofTokens s)(tok := True)\<rparr>) sids ps = Inr s'"
  using assms
  by (auto simp: handleRewardPayment_def split: sum.splits if_splits prod.splits
      dest!: preAuth_Inr)

lemma executeWithToken_Inr:
  assumes "executeWithToken_impl E s c sc sa pl tsym amount = Inr s'"
  shows "\<exists>sg tok exp own sid lim rew h gas s1.
           pl = Payload CREATE_SURVEY_MSG_ID (CreateArgs sg tok exp own sid lim rew h gas)
           \<and> amount = 0
           \<and> handleCreateSurvey E s pl amount (tokenAddresses E tsym) = Inr (True, s1)
           \<and> s' = s1\<lparr>emitted := emitted s1 @ [ExecuteEventCompleted c CREATE_SURVEY_MSG_ID]\<rparr>"
proof (cases pl)
  case TooShort
  with assms show ?thesis
    by (simp add: executeWithToken_impl_def split: if_splits)
next
  case (Payload i args)
  with assms show ?thesis
    by (cases args)
      (auto simp: executeWithToken_impl_def Let_def word_greater_zero_iff
        split: if_splits sum.splits prod.splits)
qed

lemma execute_Inr:
  assumes "execute_impl E s c sc sa pl = Inr s'"
  shows "(\<exists>sg tok exp sid s1.
            pl = Payload CANCEL_SURVEY_MSG_ID (CancelArgs sg tok exp sid)
            \<and> handleCancelSurvey E s sg tok exp sid = Inr (True, s1)
            \<and> s' = s1\<lparr>emitted := emitted s1 @ [ExecuteEventCompleted c CANCEL_SURVEY_MSG_ID]\<rparr>)
       \<or> (\<exists>sg tok exp sids ps s1.
            pl = Payload PAY_REWARDS_MSG_ID (RewardArgs sg tok exp sids ps)
            \<and> handleRewardPayment E s sg tok exp sids ps = Inr (True, s1)
            \<and> s' = s1\<lparr>emitted := emitted s1 @ [ExecuteEventCompleted c PAY_REWARDS_MSG_ID]\<rparr>)"
proof (cases pl)
  case TooShort
  with assms show ?thesis
    by (simp add: execute_impl_def split: if_splits)
next
  case (Payload i args)
  with assms show ?thesis
    by (cases args)
      (auto simp: execute_impl_def split: if_splits sum.splits prod.splits)
qed

lemma call_Inr_cases:
  assumes "call E s t = Inr s'"
  obtains
    (Create) c tsym sg tok exp own sid lim rew h gas s1 where
      "handleCreateSurvey E s (Payload CREATE_SURVEY_MSG_ID (CreateArgs sg tok exp own sid lim rew h gas))
         0 (tokenAddresses E tsym) = Inr (True, s1)"
      "s' = s1\<lparr>emitted := emitted s1 @ [ExecuteEventCompleted c CREATE_SURVEY_MSG_ID]\<rparr>"
  | (Cancel) c sg tok exp sid s1 where
      "handleCancelSurvey E s sg tok exp sid = Inr (True, s1)"
      "s' = s1\<lparr>emitted := emitted s1 @ [ExecuteEventCompleted c CANCEL_SURVEY_MSG_ID]\<rparr>"
  | (Reward) c sg tok exp sids ps s1 where
      "handleRewardPayment E s sg tok exp sids ps = Inr (True, s1)"
      "s' = s1\<lparr>emitted := emitted s1 @ [ExecuteEventCompleted c PAY_REWARDS_MSG_ID]\<rparr>"
  | (Manager) m status where
      "s' = s\<lparr>managers := (managers s)(m := status), emitted := emitted s @ [UpdateManager m status]\<rparr>"
  | (Gas) gs go where "s' = s\<lparr>gasStation := gs, gasOwner := go\<rparr>"
  | (Validate) m tok exp sg a where "preAuthValidations E s m tok exp sg = Inr (a, s')"
proof (cases t)
  case (ExecuteWithToken c sc sa pl tsym amount)
  with assms have "executeWithToken_impl E s c sc sa pl tsym amount = Inr s'" by simp
  from executeWithToken_Inr [OF this] show ?thesis using Create by blast
next
  case (Execute c sc sa pl)
  with assms have "execute_impl E s c sc sa pl = Inr s'" by simp
  from execute_Inr [OF this] show ?thesis using Cancel Reward by blast
next
  case (SetManager m status)
  with assms show ?thesis using Manager
    by (auto simp: setManager_def split: if_splits)
next
  case (SetGasStation gs go)
  with assms show ?thesis using Gas
    by (auto simp: setGasStation_def split: if_splits)
next
  case (PreAuthValidations m tok exp sg)
  with assms show ?thesis using Validate
    by (auto split: sum.splits)
qed

lemma call_proofTokens_mono:
  assumes "call E s t = Inr s'" and "proofTokens s tok"
  shows "proofTokens s' tok"
  using assms(1)
proof (cases rule: call_Inr_cases)
  case (Create c tsym sg tok' exp own sid lim rew h gas s1)
  from handleCreate_Inr(6) [OF Create(1)] assms(2) Create(2) show ?thesis by simp
next
  case (Cancel c sg tok' exp sid s1)
  from handleCancel_Inr(9) [OF Cancel(1)] assms(2) Cancel(2) show ?thesis by simp
next
  case (Reward c sg tok' exp sids ps s1)
  from rewardLoop_frame [OF handleReward_Inr(4) [OF Reward(1)]] assms(2) Reward(2)
  show ?thesis by simp
next
  case (Manager m status)
  with assms(2) show ?thesis by simp
next
  case (Gas gs go)
  with assms(2) show ?thesis by simp
next
  case (Validate m tok' exp sg a)
  from preAuth_Inr [OF Validate] assms(2) show ?thesis by simp
qed

lemma transact_proofTokens_mono: "proofTokens s tok \<Longrightarrow> proofTokens (transact E s t) tok"
  by (cases "call E s t") (auto simp: transact_def dest: call_proofTokens_mono)

lemma run_proofTokens_mono: "proofTokens s tok \<Longrightarrow> proofTokens (run txs s) tok"
  by (induction txs arbitrary: s) (auto simp: transact_proofTokens_mono)

lemma preAuth_used_token:
  "proofTokens s tok \<Longrightarrow>
   preAuthValidations E s m tok exp sg =
     Inl (if m = 0 then Quizzler__InvalidMessageHash else Quizzler__TokenAlreadyUsed)"
  by (simp add: preAuthValidations_def)

lemma preAuth_isl_used: "proofTokens s tok \<Longrightarrow> isl (preAuthValidations E s m tok exp sg)"
  by (simp add: preAuth_used_token)

lemma handlers_fail_on_used_token:
  assumes "proofTokens s tok"
  shows "isl (handleCreateSurvey E s (Payload i (CreateArgs sg tok exp own sid lim rew h gas)) amount ta)"
    and "isl (handleCancelSurvey E s sg tok exp sid)"
    and "isl (handleRewardPayment E s sg tok exp sids ps)"
  using assms
  by (auto simp: preAuth_used_token handleCancelSurvey_def handleRewardPayment_def)

lemma rewardStep_within:
  assumes "rewardStep E s sid p = Inr s'" and "within_limit s"
  shows "within_limit s'"
  unfolding within_limit_def
proof
  fix x
  from assms(2) have b: "participantsRewarded (surveys s x) \<le> participantsLimit (surveys s x)"
    by (simp add: within_limit_def)
  from rewardStep_Inr(2) [OF assms(1)]
  have "participantsRewarded (surveys s sid) + 1 \<le> participantsLimit (surveys s sid)"
    by (rule inc_le)
  with b show "participantsRewarded (surveys s' x) \<le> participantsLimit (surveys s' x)"
    by (simp add: rewardStep_Inr(4) [OF assms(1)])
qed

lemma rewardLoop_within:
  "rewardLoop E s sids ps = Inr s' \<Longrightarrow> within_limit s \<Longrightarrow> within_limit s'"
proof (induction E s sids ps rule: rewardLoop.induct)
  case (3 E s sid sids p ps)
  then show ?case
    by (auto split: sum.splits dest: rewardStep_within)
qed simp_all

lemma call_within:
  assumes "call E s t = Inr s'" and "within_limit s"
  shows "within_limit s'"
  using assms(1)
proof (cases rule: call_Inr_cases)
  case (Create c tsym sg tok exp own sid lim rew h gas s1)
  from handleCreate_Inr(4) [OF Create(1)] assms(2) Create(2) show ?thesis
    by (simp add: within_limit_def)
next
  case (Cancel c sg tok exp sid s1)
  from handleCancel_Inr(8) [OF Cancel(1)] assms(2) Cancel(2) show ?thesis
    by (simp add: within_limit_def)
next
  case (Reward c sg tok exp sids ps s1)
  have "within_limit (s\<lparr>proofTokens := (proofTokens s)(tok := True)\<rparr>)"
    using assms(2) by (simp add: within_limit_def)
  from rewardLoop_within [OF handleReward_Inr(4) [OF Reward(1)] this] Reward(2)
  show ?thesis by (simp add: within_limit_def)
next
  case (Manager m status)
  with assms(2) show ?thesis by (simp add: within_limit_def)
next
  case (Gas gs go)
  with assms(2) show ?thesis by (simp add: within_limit_def)
next
  case (Validate m tok exp sg a)
  from preAuth_Inr [OF Validate] assms(2) show ?thesis by (simp add: within_limit_def)
qed

lemma transact_within: "within_limit s \<Longrightarrow> within_limit (transact E s t)"
  by (cases "call E s t") (auto simp: transact_def dest: call_within)

lemma run_within: "within_limit s \<Longrightarrow> within_limit (run txs s)"
  by (induction txs arbitrary: s) (auto simp: transact_within)

lemma deployed_within: "within_limit (deployed d)"
  by (simp add: within_limit_def deployed_def)

lemma execute_reward_error:
  "isl (handleRewardPayment E s sg tok exp sids ps) \<Longrightarrow>
   isl (execute_impl E s c sc sa (Payload i (RewardArgs sg tok exp sids ps)))"
  by (auto simp: execute_impl_def split: sum.splits)

lemma executeWithToken_create_error:
  "isl (handleCreateSurvey E s pl amount (tokenAddresses E tsym)) \<Longrightarrow>
   isl (executeWithToken_impl E s c sc sa pl tsym amount)"
  by (auto simp: executeWithToken_impl_def Let_def split: sum.splits)

lemma preAuth_rejected:
  assumes "proofTokens s tok \<or> exp < block_timestamp E
           \<or> (\<forall>a. getSigner E m sg = Inr a \<longrightarrow> a = 0 \<or> \<not> managers s a)"
    and "preAuthValidations E s m tok exp sg = Inr (a, s1)"
  shows "\<not> managers s1 a"
  using assms(1) preAuth_Inr [OF assms(2)] by auto

lemma word_three_le_one: "\<not> (3::uint256) \<le> 1"
  by (simp add: word_le_nat_alt)

subsection \<open>Invariants of the ledger\<close>

lemma word_less_pos: "(r::uint256) < l \<Longrightarrow> 0 < l"
  by (simp add: word_less_nat_alt)

lemma rewardStep_keeps:
  assumes "rewardStep E s sid p = Inr s'"
  shows "surveyCreator (surveys s' x) = surveyCreator (surveys s x)"
    and "isCanceled (surveys s' x) = isCanceled (surveys s x)"
    and "participantsLimit (surveys s' x) = participantsLimit (surveys s x)"
    and "rewardAmount (surveys s' x) = rewardAmount (surveys s x)"
    and "rewardToken (surveys s' x) = rewardToken (surveys s x)"
  by (simp_all add: rewardStep_Inr(4) [OF assms])

lemma rewardLoop_keeps:
  "rewardLoop E s sids ps = Inr s' \<Longrightarrow>
     surveyCreator (surveys s' x) = surveyCreator (surveys s x)
     \<and> isCanceled (surveys s' x) = isCanceled (surveys s x)
     \<and> participantsLimit (surveys s' x) = participantsLimit (surveys s x)
     \<and> rewardAmount (surveys s' x) = rewardAmount (surveys s x)
     \<and> rewardToken (surveys s' x) = rewardToken (surveys s x)"
proof (induction E s sids ps rule: rewardLoop.induct)
  case (3 E s sid sids p ps)
  then show ?case
    by (auto split: sum.splits simp: rewardStep_keeps)
qed simp_all

lemma rewardStep_finished_inv:
  assumes st: "rewardStep E s sid' p = Inr s'" and inv: "finished_inv s sid"
  shows "finished_inv s' sid"
proof (cases "sid = sid'")
  case False
  with inv show ?thesis
    by (simp add: finished_inv_def rewardStep_Inr(4,6) [OF st])
next
  case True
  from rewardStep_Inr(1,2) [OF st] True
  have nc: "\<not> isCanceled (surveys s sid)"
    and lt: "participantsRewarded (surveys s sid) < participantsLimit (surveys s sid)"
    by simp_all
  from lt have pos: "0 < participantsLimit (surveys s sid)" by (rule word_less_pos)
  from lt have ne: "participantsRewarded (surveys s sid) \<noteq> participantsLimit (surveys s sid)"
    by simp
  from inv ne have c0: "count_list (emitted s) (SurveyFinished sid) = 0"
    by (simp add: finished_inv_def)
  from inv have cr: "surveyCreator (surveys s sid) = 0 \<longrightarrow> participantsLimit (surveys s sid) = 0"
    by (simp add: finished_inv_def)
  show ?thesis
    using nc pos c0 cr True
    by (simp add: finished_inv_def rewardStep_Inr(4,6) [OF st])
qed

lemma rewardLoop_finished_inv:
  "rewardLoop E s sids ps = Inr s' \<Longrightarrow> finished_inv s sid \<Longrightarrow> finished_inv s' sid"
proof (induction E s sids ps rule: rewardLoop.induct)
  case (3 E s sid' sids p ps)
  then show ?case
    by (auto split: sum.splits dest: rewardStep_finished_inv)
qed simp_all

lemma call_finished_inv:
  assumes c: "call E s t = Inr s'" and inv: "finished_inv s sid" and snd: "msg_sender E \<noteq> 0"
  shows "finished_inv s' sid"
  using c
proof (cases rule: call_Inr_cases)
  case (Create c tsym sg tok exp own sid' lim rew h gas s1)
  note f = handleCreate_Inr [OF Create(1)]
  show ?thesis
  proof (cases "sid = sid'")
    case False
    with inv show ?thesis
      by (simp add: finished_inv_def Create(2) f(4,5))
  next
    case True
    with f(3) inv have "participantsLimit (surveys s sid) = 0"
      by (simp add: finished_inv_def)
    with inv have "count_list (emitted s) (SurveyFinished sid) = 0"
      by (simp add: finished_inv_def)
    with True snd show ?thesis
      by (simp add: finished_inv_def Create(2) f(4,5) word_greater_zero_iff)
  qed
next
  case (Cancel c sg tok exp sid' s1)
  note f = handleCancel_Inr [OF Cancel(1)]
  from f(7) obtain fund paid where
    e: "emitted s1 = emitted s @
          [ERC20Transfer (rewardToken (surveys s sid')) (surveyCreator (surveys s sid')) (fund - paid),
           SurveyCanceled sid']"
    by blast
  from inv f(5) show ?thesis
    by (cases "sid = sid'") (simp_all add: finished_inv_def Cancel(2) f(8) e)
next
  case (Reward c sg tok exp sids ps s1)
  have "finished_inv (s\<lparr>proofTokens := (proofTokens s)(tok := True)\<rparr>) sid"
    using inv by (simp add: finished_inv_def)
  from rewardLoop_finished_inv [OF handleReward_Inr(4) [OF Reward(1)] this] Reward(2)
  show ?thesis by (simp add: finished_inv_def)
next
  case (Manager m status)
  with inv show ?thesis by (simp add: finished_inv_def)
next
  case (Gas gs go)
  with inv show ?thesis by (simp add: finished_inv_def)
next
  case (Validate m tok exp sg a)
  from preAuth_Inr [OF Validate] inv show ?thesis by (simp add: finished_inv_def)
qed

lemma transact_finished_inv:
  "finished_inv s sid \<Longrightarrow> msg_sender E \<noteq> 0 \<Longrightarrow> finished_inv (transact E s t) sid"
  by (cases "call E s t") (auto simp: transact_def dest: call_finished_inv)

lemma run_finished_inv:
  "finished_inv s sid \<Longrightarrow> \<forall>(E, t) \<in> set txs. msg_sender E \<noteq> 0 \<Longrightarrow> finished_inv (run txs s) sid"
  by (induction txs arbitrary: s) (auto simp: transact_finished_inv)

lemma deployed_finished_inv: "finished_inv (deployed d) sid"
  by (simp add: finished_inv_def deployed_def)

lemma run_append: "run (xs @ ys) s = run ys (run xs s)"
  by (induction xs arbitrary: s) auto

lemma rewardLoop_emitted_grows:
  "rewardLoop E s sids ps = Inr s' \<Longrightarrow> \<exists>ys. emitted s' = emitted s @ ys"
proof (induction E s sids ps rule: rewardLoop.induct)
  case (3 E s sid sids p ps)
  from "3.prems" obtain s1 where st: "rewardStep E s sid p = Inr s1"
    and lp: "rewardLoop E s1 sids ps = Inr s'"
    by (auto split: sum.splits)
  from "3.IH" [OF st lp] obtain ys where "emitted s' = emitted s1 @ ys" by blast
  with rewardStep_Inr(6) [OF st] show ?case by simp
qed simp_all

lemma call_emitted_grows:
  assumes "call E s t = Inr s'"
  shows "\<exists>ys. emitted s' = emitted s @ ys"
  using assms
proof (cases rule: call_Inr_cases)
  case (Create c tsym sg tok exp own sid lim rew h gas s1)
  with handleCreate_Inr(5) [OF Create(1)] show ?thesis by simp
next
  case (Cancel c sg tok exp sid s1)
  with handleCancel_Inr(7) [OF Cancel(1)] show ?thesis by auto
next
  case (Reward c sg tok exp sids ps s1)
  from rewardLoop_emitted_grows [OF handleReward_Inr(4) [OF Reward(1)]] Reward(2)
  show ?thesis by auto
next
  case (Manager m status)
  then show ?thesis by simp
next
  case (Gas gs go)
  then show ?thesis by simp
next
  case (Validate m tok exp sg a)
  from preAuth_Inr [OF Validate] show ?thesis by simp
qed

lemma transact_emitted_grows: "\<exists>ys. emitted (transact E s t) = emitted s @ ys"
  by (cases "call E s t") (auto simp: transact_def dest: call_emitted_grows)

lemma run_emitted_grows: "\<exists>ys. emitted (run txs s) = emitted s @ ys"
proof (induction txs arbitrary: s)
  case Nil
  then show ?case by simp
next
  case (Cons x txs)
  obtain E t where x: "x = (E, t)" by (cases x)
  from Cons [of "transact E s t"] obtain ys where
    "emitted (run txs (transact E s t)) = emitted (transact E s t) @ ys" by blast
  moreover from transact_emitted_grows [of E s t] obtain zs where
    "emitted (transact E s t) = emitted s @ zs" by blast
  ultimately show ?case by (simp add: x)
qed

lemma call_keeps_canceled:
  assumes c: "call E s t = Inr s'"
    and ex: "surveyCreator (surveys s sid) \<noteq> 0" and cn: "isCanceled (surveys s sid)"
  shows "surveyCreator (surveys s' sid) \<noteq> 0 \<and> isCanceled (surveys s' sid)"
  using c
proof (cases rule: call_Inr_cases)
  case (Create c tsym sg tok exp own sid' lim rew h gas s1)
  note f = handleCreate_Inr [OF Create(1)]
  from f(3) ex have "sid \<noteq> sid'" by auto
  with ex cn show ?thesis by (simp add: Create(2) f(4))
next
  case (Cancel c sg tok exp sid' s1)
  note f = handleCancel_Inr [OF Cancel(1)]
  from ex cn show ?thesis by (auto simp: Cancel(2) f(8))
next
  case (Reward c sg tok exp sids ps s1)
  from rewardLoop_keeps [OF handleReward_Inr(4) [OF Reward(1)], of sid] ex cn Reward(2)
  show ?thesis by simp
next
  case (Manager m status)
  with ex cn show ?thesis by simp
next
  case (Gas gs go)
  with ex cn show ?thesis by simp
next
  case (Validate m tok exp sg a)
  from preAuth_Inr [OF Validate] ex cn show ?thesis by simp
qed

lemma transact_keeps_canceled:
  "surveyCreator (surveys s sid) \<noteq> 0 \<and> isCanceled (surveys s sid) \<Longrightarrow>
   surveyCreator (surveys (transact E s t) sid) \<noteq> 0 \<and> isCanceled (surveys (transact E s t) sid)"
  by (cases "call E s t") (auto simp: transact_def dest: call_keeps_canceled)

lemma run_keeps_canceled:
  "surveyCreator (surveys s sid) \<noteq> 0 \<and> isCanceled (surveys s sid) \<Longrightarrow>
   surveyCreator (surveys (run txs s) sid) \<noteq> 0 \<and> isCanceled (surveys (run txs s) sid)"
proof (induction txs arbitrary: s)
  case Nil
  then show ?case by simp
next
  case (Cons x txs)
  obtain E t where x: "x = (E, t)" by (cases x)
  from Cons.IH [OF transact_keeps_canceled [OF Cons.prems, of E t]] show ?case
    by (simp add: x)
qed

lemma cancel_refund_amount:
  assumes "getSurveyAmountToFund s sid = Inr fund"
    and "getSurveysRewardsAmountPayded s sid = Inr paid" and "paid \<le> fund"
  shows "unat (fund - paid)
           + unat (participantsRewarded (surveys s sid)) * unat (rewardAmount (surveys s sid))
         = unat (participantsLimit (surveys s sid)) * unat (rewardAmount (surveys s sid))"
proof -
  from assms(1) have f: "unat fund
      = unat (participantsLimit (surveys s sid)) * unat (rewardAmount (surveys s sid))"
    by (simp add: getSurveyAmountToFund_def checked_mul_Inr)
  from assms(2) have p: "unat paid
      = unat (participantsRewarded (surveys s sid)) * unat (rewardAmount (surveys s sid))"
    by (simp add: getSurveysRewardsAmountPayded_def checked_mul_Inr)
  from assms(3) have "unat paid \<le> unat fund" by (simp add: word_le_nat_alt)
  with unat_sub [OF assms(3)] have "unat (fund - paid) + unat paid = unat fund" by simp
  with f p show ?thesis by simp
qed

subsection \<open>Calls that return\<close>

lemma call_keeps_record:
  assumes c: "call E s t = Inr s'" and ex: "surveyCreator (surveys s sid) \<noteq> 0"
  shows "surveyCreator (surveys s' sid) = surveyCreator (surveys s sid)
    \<and> participantsLimit (surveys s' sid) = participantsLimit (surveys s sid)
    \<and> rewardAmount (surveys s' sid) = rewardAmount (surveys s sid)
    \<and> rewardToken (surveys s' sid) = rewardToken (surveys s sid)"
  using c
proof (cases rule: call_Inr_cases)
  case (Create c tsym sg tok exp own sid' lim rew h gas s1)
  note f = handleCreate_Inr [OF Create(1)]
  from f(3) ex have "sid \<noteq> sid'" by auto
  then show ?thesis by (simp add: Create(2) f(4))
next
  case (Cancel c sg tok exp sid' s1)
  note f = handleCancel_Inr [OF Cancel(1)]
  show ?thesis by (simp add: Cancel(2) f(8))
next
  case (Reward c sg tok exp sids ps s1)
  from rewardLoop_keeps [OF handleReward_Inr(4) [OF Reward(1)], of sid] Reward(2)
  show ?thesis by simp
next
  case (Manager m status)
  then show ?thesis by simp
next
  case (Gas gs go)
  then show ?thesis by simp
next
  case (Validate m tok exp sg a)
  from preAuth_Inr [OF Validate] show ?thesis by simp
qed

lemma transact_keeps_record:
  assumes "surveyCreator (surveys s sid) \<noteq> 0"
  shows "surveyCreator (surveys (transact E s t) sid) = surveyCreator (surveys s sid)
    \<and> participantsLimit (surveys (transact E s t) sid) = participantsLimit (surveys s sid)
    \<and> rewardAmount (surveys (transact E s t) sid) = rewardAmount (surveys s sid)
    \<and> rewardToken (surveys (transact E s t) sid) = rewardToken (surveys s sid)"
proof (cases "call E s t")
  case (Inl e)
  then show ?thesis by (simp add: transact_def)
next
  case (Inr s')
  from call_keeps_record [OF Inr assms] Inr show ?thesis by (simp add: transact_def)
qed

lemma run_keeps_record:
  "surveyCreator (surveys s sid) \<noteq> 0 \<Longrightarrow>
   surveyCreator (surveys (run txs s) sid) = surveyCreator (surveys s sid)
    \<and> participantsLimit (surveys (run txs s) sid) = participantsLimit (surveys s sid)
    \<and> rewardAmount (surveys (run txs s) sid) = rewardAmount (surveys s sid)
    \<and> rewardToken (surveys (run txs s) sid) = rewardToken (surveys s sid)"
proof (induction txs arbitrary: s)
  case Nil
  then show ?case by simp
next
  case (Cons x txs)
  obtain E t where x: "x = (E, t)" by (cases x)
  note k = transact_keeps_record [OF Cons.prems, of E t]
  from k Cons.prems have "surveyCreator (surveys (transact E s t) sid) \<noteq> 0" by simp
  from Cons.IH [OF this] k show ?case by (simp add: x)
qed

lemma create_returns:
  assumes src: "keccak256 E (enc_string sc) = AGORIC_CHAIN_HASH E"
      "keccak256 E (enc_string sa) = SENDER_HASH E"
    and val: "preAuthValidations E s (createProof E s tok exp own sid lim rew h gas) tok exp sg
                = Inr (a, s1)"
    and man: "managers s a"
    and free: "surveyCreator (surveys s sid) = 0"
    and zero: "unat lim * unat rew + unat gas = 0"
    and tr: "transfer_returns E (tokenAddresses E tsym) (gasStation s) gas"
  shows "\<exists>s'. executeWithToken_impl E s c sc sa
           (Payload CREATE_SURVEY_MSG_ID (CreateArgs sg tok exp own sid lim rew h gas)) tsym 0 = Inr s'"
proof -
  from preAuth_Inr [OF val] have s1: "s1 = s\<lparr>proofTokens := (proofTokens s)(tok := True)\<rparr>"
    by simp
  from zero have g: "gas = 0" and p: "unat lim * unat rew = 0"
    by (simp_all add: unat_eq_0)
  have "unat lim * unat rew < 2 ^ 256" by (simp only: p) simp
  from unat_mul_256 [OF this] p have "unat (lim * rew) = 0" by (simp only:)
  then have m: "lim * rew = 0" by (simp only: unat_eq_0)
  show ?thesis
    using src val man free tr p m g
    by (auto simp: executeWithToken_impl_def s1 checked_mul_def checked_add_def
        getSurveyAmountToFund_def erc20_transfer_def Let_def)
qed

lemma cancel_returns:
  assumes ex: "surveyCreator (surveys s sid) \<noteq> 0"
    and nc: "\<not> isCanceled (surveys s sid)"
    and who: "msg_sender E = surveyCreator (surveys s sid) \<or> managers s (msg_sender E)"
    and lt: "participantsRewarded (surveys s sid) < participantsLimit (surveys s sid)"
    and val: "preAuthValidations E s (cancelProof E s tok exp sid) tok exp sg = Inr (a, s1)"
    and man: "managers s a"
    and nov: "unat (participantsLimit (surveys s sid)) * unat (rewardAmount (surveys s sid)) < 2 ^ 256"
    and tr: "transfer_returns E (rewardToken (surveys s sid)) (surveyCreator (surveys s sid))
               (participantsLimit (surveys s sid) * rewardAmount (surveys s sid)
                - participantsRewarded (surveys s sid) * rewardAmount (surveys s sid))"
  shows "\<exists>s3. handleCancelSurvey E s sg tok exp sid = Inr (True, s3)
           \<and> emitted s3 = emitted s @
               [ERC20Transfer (rewardToken (surveys s sid)) (surveyCreator (surveys s sid))
                  (participantsLimit (surveys s sid) * rewardAmount (surveys s sid)
                   - participantsRewarded (surveys s sid) * rewardAmount (surveys s sid)),
                SurveyCanceled sid]"
proof -
  let ?L = "participantsLimit (surveys s sid)" and ?R = "participantsRewarded (surveys s sid)"
    and ?A = "rewardAmount (surveys s sid)"
  from preAuth_Inr [OF val] have s1: "s1 = s\<lparr>proofTokens := (proofTokens s)(tok := True)\<rparr>"
    by simp
  from lt have "unat ?R \<le> unat ?L" by (simp add: word_less_nat_alt)
  then have le: "unat ?R * unat ?A \<le> unat ?L * unat ?A" by simp
  from le nov have nov2: "unat ?R * unat ?A < 2 ^ 256" by (rule le_less_trans)
  from le unat_mul_256 [OF nov] unat_mul_256 [OF nov2] have ple: "?R * ?A \<le> ?L * ?A"
    by (simp add: word_le_nat_alt)
  from lt have nle: "\<not> ?L \<le> ?R" by simp
  show ?thesis
    using ex nc who nle val man nov nov2 ple tr
    by (auto simp: handleCancelSurvey_def s1 checked_mul_def checked_sub_def
        getSurveyAmountToFund_def getSurveysRewardsAmountPayded_def erc20_transfer_def)
qed

subsection \<open>Evaluating the worked examples\<close>

lemma word_two_le_one: "\<not> (2::uint256) \<le> 1"
  by (simp add: word_le_nat_alt)

lemmas eval_defs = word_two_le_one transact_def executeWithToken_impl_def execute_impl_def env0_def AGORIC_CHAIN_HASH_def
     enc_string_def CREATE_SURVEY_MSG_ID_def CANCEL_SURVEY_MSG_ID_def PAY_REWARDS_MSG_ID_def
     preAuthValidations_def createProof_def cancelProof_def rewardProof_def getSigner_def
     getChainID_def length_enc checked_mul_def checked_add_def checked_sub_def getSurveyAmountToFund_def
     getSurveysRewardsAmountPayded_def handleCancelSurvey_def handleRewardPayment_def rewardStep_def
     erc20_transfer_def Let_def

lemma ledger_after_create_S1: "transact env0 (deployed 1) create_S1 =
   (deployed 1)\<lparr>surveys := (surveys (deployed 1))(''S1'' :=
       \<lparr>surveyCreator = 9, participantsLimit = 2, rewardAmount = 0, participantsRewarded = 0,
        surveyHash = 0, rewardToken = 5, isCanceled = False\<rparr>),
     proofTokens := (proofTokens (deployed 1))(77 := True),
     emitted := [ERC20Transfer 5 0 0, SurveyCreated ''S1'' 9 2 0 0, ExecuteEventCompleted 3 0]\<rparr>"
  by (simp add: create_S1_def eval_defs deployed_def)

lemma ledger_after_two_payments: "surveys (run [(env0, create_S1), (env0, pay_S1 78 10), (env0, pay_S1 79 11)] (deployed 1)) ''S1''
   = \<lparr>surveyCreator = 9, participantsLimit = 2, rewardAmount = 0, participantsRewarded = 2,
        surveyHash = 0, rewardToken = 5, isCanceled = False\<rparr>"
  "emitted (run [(env0, create_S1), (env0, pay_S1 78 10), (env0, pay_S1 79 11)] (deployed 1))
   = [ERC20Transfer 5 0 0, SurveyCreated ''S1'' 9 2 0 0, ExecuteEventCompleted 3 0,
      ERC20Transfer 5 10 0, RewardPaid 10 ''S1'' 0, ExecuteEventCompleted 3 2,
      ERC20Transfer 5 11 0, RewardPaid 11 ''S1'' 0, SurveyFinished ''S1'', ExecuteEventCompleted 3 2]"
  by (simp_all add: create_S1_def pay_S1_def eval_defs deployed_def)

lemma cancel_S2_returns:
  "execute_impl env0 st_S2 3 ''agoric'' ''sender'' (Payload 1 (CancelArgs [1, 2] 77 200 ''S2''))
     = Inr (transact env0 st_S2 cancel_S2)"
  "emitted (transact env0 st_S2 cancel_S2)
     = [ERC20Transfer 5 9 10, SurveyCanceled ''S2'', ExecuteEventCompleted 3 1]"
  by (simp_all add: cancel_S2_def eval_defs st_S2_facts word_three_le_one)

lemma create_S1_proof_valid:
  "preAuthValidations env0 (deployed 1) (createProof env0 (deployed 1) 77 200 4 ''S1'' 2 0 0 0)
     77 200 [1, 2] = Inr (1, (deployed 1)\<lparr>proofTokens := (proofTokens (deployed 1))(77 := True)\<rparr>)"
  by (simp add: eval_defs deployed_def)

lemma ledger_after_one_payment:
  "surveys (run [(env0, pay_S1 78 10)] (transact env0 (deployed 1) create_S1)) ''S1''
     = \<lparr>surveyCreator = 9, participantsLimit = 2, rewardAmount = 0, participantsRewarded = 1,
        surveyHash = 0, rewardToken = 5, isCanceled = False\<rparr>"
  "managers (run [(env0, pay_S1 78 10)] (transact env0 (deployed 1) create_S1))
     = (\<lambda>a. False)(1 := True)"
  "proofTokens (run [(env0, pay_S1 78 10)] (transact env0 (deployed 1) create_S1)) 79 = False"
  "emitted (run [(env0, pay_S1 78 10)] (transact env0 (deployed 1) create_S1))
     = [ERC20Transfer 5 0 0, SurveyCreated ''S1'' 9 2 0 0, ExecuteEventCompleted 3 0,
        ERC20Transfer 5 10 0, RewardPaid 10 ''S1'' 0, ExecuteEventCompleted 3 2]"
  by (simp_all add: create_S1_def pay_S1_def eval_defs deployed_def)

lemma cancel_S1_proof_valid:
  "preAuthValidations env0 (run [(env0, pay_S1 78 10)] (transact env0 (deployed 1) create_S1))
     (cancelProof env0 (run [(env0, pay_S1 78 10)] (transact env0 (deployed 1) create_S1))
        79 200 ''S1'') 79 200 [1, 2]
   = Inr (1, (run [(env0, pay_S1 78 10)] (transact env0 (deployed 1) create_S1))
        \<lparr>proofTokens := (proofTokens
           (run [(env0, pay_S1 78 10)] (transact env0 (deployed 1) create_S1)))(79 := True)\<rparr>)"
  using ledger_after_one_payment(3)
  by (simp add: preAuthValidations_def cancelProof_def getSigner_def env0_def length_enc
      getChainID_def)

section \<open>The claims\<close>

subsection \<open>C1: a create that needs funding cannot succeed\<close>

text \<open>
  C1. For every create-survey envelope whose \<open>participantsLimit * rewardAmount +
  gasStationAmount\<close> is positive, the token-bearing delivery fails: an attached amount
  above zero is rejected with \<open>NoTokens\<close> (once the source checks have passed), and the
  create handler returns only when the attached amount equals that sum. So a create succeeds
  only when the sum is zero.
\<close>

theorem create_with_funding_fails:
  assumes "0 < unat lim * unat rew + unat gas"
  shows "isl (executeWithToken_impl E s c sc sa
                (Payload i (CreateArgs sg tok exp own sid lim rew h gas)) tsym amount)
    \<and> (keccak256 E (enc_string sc) = AGORIC_CHAIN_HASH E
         \<and> keccak256 E (enc_string sa) = SENDER_HASH E \<and> 0 < amount
        \<longrightarrow> executeWithToken_impl E s c sc sa
              (Payload i (CreateArgs sg tok exp own sid lim rew h gas)) tsym amount
              = Inl Quizzler__NoTokens)
    \<and> (\<forall>ta r. handleCreateSurvey E s
                  (Payload i (CreateArgs sg tok exp own sid lim rew h gas)) amount ta = Inr r
        \<longrightarrow> unat amount = unat lim * unat rew + unat gas)"
proof -
  let ?pl = "Payload i (CreateArgs sg tok exp own sid lim rew h gas)"
  have need: "unat amount = unat lim * unat rew + unat gas"
    if "handleCreateSurvey E s ?pl amount ta = Inr r" for ta r
    using that by (rule handleCreate_needs_amount)
  have "isl (executeWithToken_impl E s c sc sa ?pl tsym amount)"
  proof (cases "0 < amount")
    case True
    then show ?thesis by (simp add: executeWithToken_impl_def)
  next
    case False
    then have z: "unat amount = 0" by (simp add: word_greater_zero_iff unat_eq_0)
    have "isl (handleCreateSurvey E s ?pl amount ta)" for ta
    proof (cases "handleCreateSurvey E s ?pl amount ta")
      case (Inl e)
      then show ?thesis by simp
    next
      case (Inr r)
      from need [OF Inr] z assms show ?thesis by simp
    qed
    from this [of "tokenAddresses E tsym"] show ?thesis
      by (auto simp: executeWithToken_impl_def Let_def split: sum.splits)
  qed
  moreover have "executeWithToken_impl E s c sc sa ?pl tsym amount = Inl Quizzler__NoTokens"
    if "keccak256 E (enc_string sc) = AGORIC_CHAIN_HASH E"
      "keccak256 E (enc_string sa) = SENDER_HASH E" "0 < amount"
    using that by (simp add: executeWithToken_impl_def)
  ultimately show ?thesis using need by blast
qed

text \<open>
  At limit 2, reward 10 and gas amount 1 the delivery fails with no token attached, and
  with the 21 units attached it is refused as \<open>NoTokens\<close>.
\<close>

theorem create_with_funding_fails_witness:
  "isl (executeWithToken_impl env0 (deployed 1) 3 ''agoric'' ''sender''
         (Payload 0 (CreateArgs [1, 2] 77 200 4 ''S1'' 2 10 0 1)) ''aUSDC'' 0)
   \<and> executeWithToken_impl env0 (deployed 1) 3 ''agoric'' ''sender''
         (Payload 0 (CreateArgs [1, 2] 77 200 4 ''S1'' 2 10 0 1)) ''aUSDC'' 21
       = Inl Quizzler__NoTokens"
  using create_with_funding_fails [of 2 10 1 env0 "deployed 1" 3 "''agoric''" "''sender''" 0
      "[1, 2]" 77 200 4 "''S1''" 0 "''aUSDC''" 0]
    create_with_funding_fails [of 2 10 1 env0 "deployed 1" 3 "''agoric''" "''sender''" 0
      "[1, 2]" 77 200 4 "''S1''" 0 "''aUSDC''" 21]
  by (simp add: env0_def AGORIC_CHAIN_HASH_def enc_string_def)

subsection \<open>C2: a proof that is rejected consumes no token\<close>

text \<open>
  C2 says that a token is consumed although its proof is rejected as expired, as signed by
  the zero identity or as signed by somebody who is no manager. The contract does not do
  that. In the ledger \<open>st_S2\<close>, with the clock at 100: a cancel whose proof expired at 50
  reverts with \<open>ProofExpired\<close>, one whose signature recovers to the zero address reverts
  with \<open>ZeroAddress\<close>, both before \<^verbatim>\<open>preAuthValidations\<close> reaches its write; one signed
  by address 2, no manager, gets through \<^verbatim>\<open>preAuthValidations\<close>, which marks token 77,
  and the handler then reverts with \<open>InvalidSigner\<close>, which undoes the mark. After each
  of the three deliveries token 77 is unused.
\<close>

theorem failed_validation_consumes_token_counterexample:
  "handleCancelSurvey env0 st_S2 [1, 2] 77 50 ''S2'' = Inl Quizzler__ProofExpired
   \<and> \<not> proofTokens (transact env0 st_S2
          (Execute 3 ''agoric'' ''sender'' (Payload 1 (CancelArgs [1, 2] 77 50 ''S2'')))) 77
   \<and> handleCancelSurvey env0 st_S2 [1] 77 200 ''S2'' = Inl Quizzler__ZeroAddress
   \<and> \<not> proofTokens (transact env0 st_S2
          (Execute 3 ''agoric'' ''sender'' (Payload 1 (CancelArgs [1] 77 200 ''S2'')))) 77
   \<and> preAuthValidations env0 st_S2 (cancelProof env0 st_S2 77 200 ''S2'') 77 200 [1, 2, 3]
        = Inr (2, st_S2\<lparr>proofTokens := (proofTokens st_S2)(77 := True)\<rparr>)
   \<and> handleCancelSurvey env0 st_S2 [1, 2, 3] 77 200 ''S2'' = Inl Quizzler_InvalidSigner
   \<and> \<not> proofTokens (transact env0 st_S2
          (Execute 3 ''agoric'' ''sender'' (Payload 1 (CancelArgs [1, 2, 3] 77 200 ''S2'')))) 77"
  by (simp add: eval_defs st_S2_facts word_three_le_one)

text \<open>
  C2, amended. When a proof is rejected because its token was already consumed, because it
  is expired, because signature recovery fails or yields the zero identity, or because the
  recovered signer is not a manager, the create, cancel or pay-rewards handler fails and
  the delivery leaves the ledger, with its set of consumed tokens, exactly as it was; for a
  consumed token, an expired proof and the zero signer \<^verbatim>\<open>preAuthValidations\<close> itself
  fails, before it marks anything.
\<close>

theorem rejected_proof_consumes_nothing:
  assumes "proofTokens s tok \<or> exp < block_timestamp E
           \<or> (\<forall>a. getSigner E m sg = Inr a \<longrightarrow> a = 0 \<or> \<not> managers s a)"
  shows "(proofTokens s tok \<or> exp < block_timestamp E \<or> getSigner E m sg = Inr 0
            \<longrightarrow> isl (preAuthValidations E s m tok exp sg))
    \<and> (m = createProof E s tok exp own sid lim rew h gas \<longrightarrow>
         isl (handleCreateSurvey E s (Payload i (CreateArgs sg tok exp own sid lim rew h gas))
                amount (tokenAddresses E tsym))
         \<and> transact E s (ExecuteWithToken c sc sa
                (Payload i (CreateArgs sg tok exp own sid lim rew h gas)) tsym amount) = s)
    \<and> (m = cancelProof E s tok exp sid \<longrightarrow>
         isl (handleCancelSurvey E s sg tok exp sid)
         \<and> transact E s (Execute c sc sa (Payload i (CancelArgs sg tok exp sid))) = s)
    \<and> (m = rewardProof E s tok exp sids ps \<longrightarrow>
         isl (handleRewardPayment E s sg tok exp sids ps)
         \<and> transact E s (Execute c sc sa (Payload i (RewardArgs sg tok exp sids ps))) = s)"
proof (intro conjI impI)
  assume "proofTokens s tok \<or> exp < block_timestamp E \<or> getSigner E m sg = Inr 0"
  then show "isl (preAuthValidations E s m tok exp sg)"
    by (auto simp: preAuthValidations_def)
next
  assume m: "m = createProof E s tok exp own sid lim rew h gas"
  show 1: "isl (handleCreateSurvey E s (Payload i (CreateArgs sg tok exp own sid lim rew h gas))
                amount (tokenAddresses E tsym))"
    using preAuth_rejected [OF assms] unfolding m
    by (auto split: sum.splits prod.splits)
  show "transact E s (ExecuteWithToken c sc sa
                (Payload i (CreateArgs sg tok exp own sid lim rew h gas)) tsym amount) = s"
    using executeWithToken_create_error [OF 1] by (simp add: transact_failed)
next
  assume m: "m = cancelProof E s tok exp sid"
  show 1: "isl (handleCancelSurvey E s sg tok exp sid)"
    using preAuth_rejected [OF assms] unfolding m
    by (auto simp: handleCancelSurvey_def split: sum.splits prod.splits)
  then obtain e where "handleCancelSurvey E s sg tok exp sid = Inl e"
    by (cases "handleCancelSurvey E s sg tok exp sid") auto
  from execute_cancel_error [OF this]
  show "transact E s (Execute c sc sa (Payload i (CancelArgs sg tok exp sid))) = s"
    by (simp add: transact_failed)
next
  assume m: "m = rewardProof E s tok exp sids ps"
  show 1: "isl (handleRewardPayment E s sg tok exp sids ps)"
    using preAuth_rejected [OF assms] unfolding m
    by (auto simp: handleRewardPayment_def split: sum.splits prod.splits)
  show "transact E s (Execute c sc sa (Payload i (RewardArgs sg tok exp sids ps))) = s"
    using execute_reward_error [OF 1] by (simp add: transact_failed)
qed

text \<open>The expired proof and the proof of a non-manager, at the cancel of \<open>S2\<close>.\<close>

theorem rejected_proof_consumes_nothing_witness:
  "isl (handleCancelSurvey env0 st_S2 [1, 2] 77 50 ''S2'')
   \<and> transact env0 st_S2 (Execute 3 ''agoric'' ''sender''
         (Payload 1 (CancelArgs [1, 2] 77 50 ''S2''))) = st_S2
   \<and> isl (handleCancelSurvey env0 st_S2 [1, 2, 3] 77 200 ''S2'')
   \<and> transact env0 st_S2 (Execute 3 ''agoric'' ''sender''
         (Payload 1 (CancelArgs [1, 2, 3] 77 200 ''S2''))) = st_S2"
proof -
  have a: "(50::uint256) < block_timestamp env0"
    by (simp add: env0_def)
  have b: "\<forall>a. getSigner env0 (cancelProof env0 st_S2 77 200 ''S2'') [1, 2, 3] = Inr a
             \<longrightarrow> a = 0 \<or> \<not> managers st_S2 a"
    by (simp add: getSigner_def env0_def st_S2_facts)
  from a rejected_proof_consumes_nothing [where s = st_S2 and tok = 77 and exp = 50 and E = env0
      and m = "cancelProof env0 st_S2 77 50 ''S2''" and sg = "[1, 2]" and sid = "''S2''"
      and i = 1 and c = 3 and sc = "''agoric''" and sa = "''sender''"]
  have 1: "isl (handleCancelSurvey env0 st_S2 [1, 2] 77 50 ''S2'')
     \<and> transact env0 st_S2 (Execute 3 ''agoric'' ''sender''
         (Payload 1 (CancelArgs [1, 2] 77 50 ''S2''))) = st_S2"
    by simp
  from b rejected_proof_consumes_nothing [where s = st_S2 and tok = 77 and exp = 200 and E = env0
      and m = "cancelProof env0 st_S2 77 200 ''S2''" and sg = "[1, 2, 3]" and sid = "''S2''"
      and i = 1 and c = 3 and sc = "''agoric''" and sa = "''sender''"]
  have 2: "isl (handleCancelSurvey env0 st_S2 [1, 2, 3] 77 200 ''S2'')
     \<and> transact env0 st_S2 (Execute 3 ''agoric'' ''sender''
         (Payload 1 (CancelArgs [1, 2, 3] 77 200 ''S2''))) = st_S2"
    by simp
  from 1 2 show ?thesis by simp
qed

subsection \<open>C3: a consumed token never validates again\<close>

text \<open>
  C3. A validation that succeeds marks its token. Once a token is marked it stays marked
  through every later sequence of calls (the set of consumed tokens only grows), and every
  later validation with that token fails, whatever digest it is for: the validation itself
  with \<open>InvalidMessageHash\<close> or \<open>TokenAlreadyUsed\<close>, and so the create, the cancel and the
  pay-rewards handler for any arguments.
\<close>

theorem consumed_token_never_validates_again:
  "(\<forall>a s1. preAuthValidations E s m tok exp sg = Inr (a, s1) \<longrightarrow> proofTokens s1 tok)
   \<and> (proofTokens s tok \<longrightarrow>
        proofTokens (run txs s) tok
        \<and> preAuthValidations E2 (run txs s) m2 tok exp2 sg2
            = Inl (if m2 = 0 then Quizzler__InvalidMessageHash else Quizzler__TokenAlreadyUsed)
        \<and> isl (handleCreateSurvey E2 (run txs s)
                 (Payload i (CreateArgs sg2 tok exp2 own sid lim rew h gas)) amount ta)
        \<and> isl (handleCancelSurvey E2 (run txs s) sg2 tok exp2 sid2)
        \<and> isl (handleRewardPayment E2 (run txs s) sg2 tok exp2 sids ps))"
proof (intro conjI allI impI)
  fix a s1
  assume "preAuthValidations E s m tok exp sg = Inr (a, s1)"
  from preAuth_Inr [OF this] show "proofTokens s1 tok" by simp
next
  assume "proofTokens s tok"
  then have u: "proofTokens (run txs s) tok" by (rule run_proofTokens_mono)
  then show "proofTokens (run txs s) tok" .
  from u show "preAuthValidations E2 (run txs s) m2 tok exp2 sg2
            = Inl (if m2 = 0 then Quizzler__InvalidMessageHash else Quizzler__TokenAlreadyUsed)"
    by (rule preAuth_used_token)
  from u show "isl (handleCreateSurvey E2 (run txs s)
                 (Payload i (CreateArgs sg2 tok exp2 own sid lim rew h gas)) amount ta)"
    by (rule handlers_fail_on_used_token)
  from u show "isl (handleCancelSurvey E2 (run txs s) sg2 tok exp2 sid2)"
    by (rule handlers_fail_on_used_token)
  from u show "isl (handleRewardPayment E2 (run txs s) sg2 tok exp2 sids ps)"
    by (rule handlers_fail_on_used_token)
qed

text \<open>
  Token 77 is consumed by the create of \<open>S1\<close>; after a payment made with token 78, a
  validation and a cancel that present token 77 again fail.
\<close>

theorem consumed_token_never_validates_again_witness:
  "proofTokens (run [(env0, pay_S1 78 10)] (transact env0 (deployed 1) create_S1)) 77
   \<and> preAuthValidations env0 (run [(env0, pay_S1 78 10)] (transact env0 (deployed 1) create_S1))
         5 77 300 [1, 2] = Inl Quizzler__TokenAlreadyUsed
   \<and> isl (handleCancelSurvey env0 (run [(env0, pay_S1 78 10)] (transact env0 (deployed 1) create_S1))
         [1, 2] 77 300 ''S1'')"
proof -
  have "proofTokens (transact env0 (deployed 1) create_S1) 77"
    by (simp add: ledger_after_create_S1)
  with consumed_token_never_validates_again [of env0 "transact env0 (deployed 1) create_S1" 5 77 300
      "[1, 2]" "[(env0, pay_S1 78 10)]" env0 5 300 "[1, 2]" 0 4 "''S1''" 2 0 0 0 0 5 "''S1''" "[]" "[]"]
  show ?thesis by simp
qed

subsection \<open>C4: the rewarded count never exceeds the limit\<close>

text \<open>
  C4. In every ledger reached from the deployed contract by any sequence of calls (creates,
  cancels, pay-rewards batches, and the administrative calls), every survey has
  \<open>participantsRewarded \<le> participantsLimit\<close>. The bound is kept by every call, and by
  every single payment inside a batch.
\<close>

theorem rewarded_never_exceeds_limit:
  "within_limit (run txs (deployed d))
   \<and> (within_limit s \<longrightarrow> within_limit (transact E s t))
   \<and> (\<forall>s'. within_limit s \<and> rewardStep E s sid p = Inr s' \<longrightarrow> within_limit s')"
  using run_within [OF deployed_within] transact_within rewardStep_within by blast

text \<open>After the create of \<open>S1\<close> and two payments the count has reached the limit of 2.\<close>

theorem rewarded_never_exceeds_limit_witness:
  "within_limit (run [(env0, create_S1), (env0, pay_S1 78 10), (env0, pay_S1 79 11)] (deployed 1))
   \<and> participantsRewarded (surveys
         (run [(env0, create_S1), (env0, pay_S1 78 10), (env0, pay_S1 79 11)] (deployed 1)) ''S1'') = 2
   \<and> participantsLimit (surveys
         (run [(env0, create_S1), (env0, pay_S1 78 10), (env0, pay_S1 79 11)] (deployed 1)) ''S1'') = 2"
  using rewarded_never_exceeds_limit
      [of "[(env0, create_S1), (env0, pay_S1 78 10), (env0, pay_S1 79 11)]" 1]
    ledger_after_two_payments
  by simp

subsection \<open>C5: a create with the wrong funding fails and leaves no record\<close>

text \<open>
  C5. Whenever the received amount differs from \<open>participantsLimit * rewardAmount +
  gasStationAmount\<close>, the create handler fails and so does the delivery that calls it; the
  ledger after the delivery is the ledger before it, so no record was left under the survey
  id. When the proof is valid, the signer a manager, the id free and the sum within 256
  bits, the error is \<open>InvalidTrxValue\<close>.
\<close>

theorem underfunded_create_fails:
  assumes "unat amount \<noteq> unat lim * unat rew + unat gas"
  shows "isl (handleCreateSurvey E s (Payload i (CreateArgs sg tok exp own sid lim rew h gas)) amount ta)
    \<and> isl (executeWithToken_impl E s c sc sa
              (Payload i (CreateArgs sg tok exp own sid lim rew h gas)) tsym amount)
    \<and> transact E s (ExecuteWithToken c sc sa
              (Payload i (CreateArgs sg tok exp own sid lim rew h gas)) tsym amount) = s
    \<and> (\<forall>a s1. preAuthValidations E s (createProof E s tok exp own sid lim rew h gas) tok exp sg
                  = Inr (a, s1)
              \<and> managers s a \<and> surveyCreator (surveys s sid) = 0
              \<and> unat lim * unat rew + unat gas < 2 ^ 256
        \<longrightarrow> handleCreateSurvey E s (Payload i (CreateArgs sg tok exp own sid lim rew h gas)) amount ta
              = Inl Quizzler_InvalidTrxValue)"
proof -
  let ?pl = "Payload i (CreateArgs sg tok exp own sid lim rew h gas)"
  have h: "isl (handleCreateSurvey E s ?pl amount ta)" for ta
  proof (cases "handleCreateSurvey E s ?pl amount ta")
    case (Inl e)
    then show ?thesis by simp
  next
    case (Inr r)
    from handleCreate_needs_amount [OF Inr] assms show ?thesis by simp
  qed
  have x: "isl (executeWithToken_impl E s c sc sa ?pl tsym amount)"
    using h [of "tokenAddresses E tsym"]
    by (auto simp: executeWithToken_impl_def Let_def split: sum.splits)
  have t: "transact E s (ExecuteWithToken c sc sa ?pl tsym amount) = s"
    using x by (simp add: transact_failed)
  have v: "handleCreateSurvey E s ?pl amount ta = Inl Quizzler_InvalidTrxValue"
    if p: "preAuthValidations E s (createProof E s tok exp own sid lim rew h gas) tok exp sg = Inr (a, s1)"
      and m: "managers s a" and n: "surveyCreator (surveys s sid) = 0"
      and b: "unat lim * unat rew + unat gas < 2 ^ 256" for a s1
  proof -
    from preAuth_Inr [OF p] have s1: "s1 = s\<lparr>proofTokens := (proofTokens s)(tok := True)\<rparr>" by simp
    from b have b1: "unat lim * unat rew < 2 ^ 256" by simp
    then have u: "unat (lim * rew) = unat lim * unat rew"
      by (rule unat_mul_256)
    with b have b2: "unat (lim * rew) + unat gas < 2 ^ 256" by simp
    from unat_add_256 [OF b2] u
    have u2: "unat (lim * rew + gas) = unat lim * unat rew + unat gas" by simp
    with assms have ne: "amount \<noteq> lim * rew + gas" by auto
    show ?thesis
      using p m n b1 b2 ne by (simp add: s1 checked_mul_def checked_add_def)
  qed
  show ?thesis using h x t v by blast
qed

text \<open>
  Limit 2, reward 10 and gas amount 1 need 21; with 5 received the handler stops at the
  funding check, and the delivery leaves the ledger as deployed.
\<close>

theorem underfunded_create_fails_witness:
  "handleCreateSurvey env0 (deployed 1) (Payload 0 (CreateArgs [1, 2] 77 200 4 ''S1'' 2 10 0 1)) 5 5
      = Inl Quizzler_InvalidTrxValue
   \<and> transact env0 (deployed 1) (ExecuteWithToken 3 ''agoric'' ''sender''
        (Payload 0 (CreateArgs [1, 2] 77 200 4 ''S1'' 2 10 0 1)) ''aUSDC'' 5) = deployed 1"
  using underfunded_create_fails [of 5 2 10 1 env0 "deployed 1" 0 "[1, 2]" 77 200 4 "''S1''" 0 5
      3 "''agoric''" "''sender''" "''aUSDC''"]
  by (simp add: env0_def preAuthValidations_def createProof_def getSigner_def getChainID_def
      length_enc deployed_def)

subsection \<open>C6: a cancel refunds the unspent funding, once\<close>

text \<open>
  C6. A cancel delivery that returns found the survey existing, not canceled and with
  \<open>participantsRewarded < participantsLimit\<close>; it made one token transfer, of exactly
  \<open>participantsLimit * rewardAmount - participantsRewarded * rewardAmount\<close> (the amount
  \<open>amt\<close> with \<open>amt + participantsRewarded * rewardAmount = participantsLimit *
  rewardAmount\<close>, in unbounded arithmetic), to the recorded creator, and set the canceled
  flag. After any further calls a cancel of the same survey
  fails with \<open>SurveyAlreadyCanceled\<close>, and its delivery changes nothing, so nothing is
  transferred a second time.
\<close>

theorem cancel_refunds_once:
  assumes "execute_impl E s c sc sa (Payload i (CancelArgs sg tok exp sid)) = Inr s'"
  shows "surveyCreator (surveys s sid) \<noteq> 0 \<and> \<not> isCanceled (surveys s sid)
    \<and> participantsRewarded (surveys s sid) < participantsLimit (surveys s sid)
    \<and> (\<exists>amt. unat amt
            + unat (participantsRewarded (surveys s sid)) * unat (rewardAmount (surveys s sid))
            = unat (participantsLimit (surveys s sid)) * unat (rewardAmount (surveys s sid))
          \<and> emitted s' = emitted s @
              [ERC20Transfer (rewardToken (surveys s sid)) (surveyCreator (surveys s sid)) amt,
               SurveyCanceled sid, ExecuteEventCompleted c CANCEL_SURVEY_MSG_ID])
    \<and> isCanceled (surveys s' sid)
    \<and> handleCancelSurvey E2 (run txs s') sg2 tok2 exp2 sid = Inl Quizzler__SurveyAlreadyCanceled
    \<and> transact E2 (run txs s') (Execute c2 sc2 sa2 (Payload i2 (CancelArgs sg2 tok2 exp2 sid)))
        = run txs s'"
proof -
  from execute_Inr [OF assms] obtain s1 where
    h: "handleCancelSurvey E s sg tok exp sid = Inr (True, s1)"
    and s': "s' = s1\<lparr>emitted := emitted s1 @ [ExecuteEventCompleted c CANCEL_SURVEY_MSG_ID]\<rparr>"
    by auto
  note f = handleCancel_Inr [OF h]
  from f(7) obtain fund paid where
    fp: "getSurveyAmountToFund s sid = Inr fund" "getSurveysRewardsAmountPayded s sid = Inr paid"
      "paid \<le> fund"
    and e: "emitted s1 = emitted s @
          [ERC20Transfer (rewardToken (surveys s sid)) (surveyCreator (surveys s sid)) (fund - paid),
           SurveyCanceled sid]"
    by blast
  have 1: "\<exists>amt. unat amt
            + unat (participantsRewarded (surveys s sid)) * unat (rewardAmount (surveys s sid))
            = unat (participantsLimit (surveys s sid)) * unat (rewardAmount (surveys s sid))
          \<and> emitted s' = emitted s @
              [ERC20Transfer (rewardToken (surveys s sid)) (surveyCreator (surveys s sid)) amt,
               SurveyCanceled sid, ExecuteEventCompleted c CANCEL_SURVEY_MSG_ID]"
    using cancel_refund_amount [OF fp] e by (intro exI [of _ "fund - paid"]) (simp add: s')
  have 2: "surveyCreator (surveys s' sid) \<noteq> 0 \<and> isCanceled (surveys s' sid)"
    using f(2) by (simp add: s' f(8))
  from run_keeps_canceled [OF 2, of txs]
  have 3: "surveyCreator (surveys (run txs s') sid) \<noteq> 0 \<and> isCanceled (surveys (run txs s') sid)" .
  then have 4: "handleCancelSurvey E2 (run txs s') sg2 tok2 exp2 sid
      = Inl Quizzler__SurveyAlreadyCanceled"
    by (simp add: handleCancelSurvey_def)
  from execute_cancel_error [OF 4]
  have 5: "transact E2 (run txs s') (Execute c2 sc2 sa2 (Payload i2 (CancelArgs sg2 tok2 exp2 sid)))
        = run txs s'"
    by (simp add: transact_failed)
  from f(2,3,5) 1 2 4 5 show ?thesis by blast
qed

text \<open>
  The survey \<open>S2\<close> of limit 3 and reward 5 with one participant rewarded: the cancel sends
  10 to the creator, address 9; after a later delivery a second cancel, with a fresh token,
  fails and changes nothing.
\<close>

theorem cancel_refunds_once_witness:
  "(\<exists>amt. unat amt = 10
      \<and> emitted (transact env0 st_S2 cancel_S2)
          = [ERC20Transfer 5 9 amt, SurveyCanceled ''S2'', ExecuteEventCompleted 3 1])
   \<and> isCanceled (surveys (transact env0 st_S2 cancel_S2) ''S2'')
   \<and> handleCancelSurvey env0 (run [(env0, pay_S1 78 10)] (transact env0 st_S2 cancel_S2))
        [1, 2] 79 200 ''S2'' = Inl Quizzler__SurveyAlreadyCanceled
   \<and> transact env0 (run [(env0, pay_S1 78 10)] (transact env0 st_S2 cancel_S2))
        (Execute 3 ''agoric'' ''sender'' (Payload 1 (CancelArgs [1, 2] 79 200 ''S2'')))
       = run [(env0, pay_S1 78 10)] (transact env0 st_S2 cancel_S2)"
  using cancel_refunds_once [OF cancel_S2_returns(1), where txs = "[(env0, pay_S1 78 10)]"
      and ?E2.0 = env0 and ?sg2.0 = "[1, 2]" and ?tok2.0 = 79 and ?exp2.0 = 200 and ?c2.0 = 3
      and ?sc2.0 = "''agoric''" and ?sa2.0 = "''sender''" and ?i2.0 = 1]
  by (simp add: st_S2_facts CANCEL_SURVEY_MSG_ID_def)

subsection \<open>C7: the pay-rewards digest binds the lengths only\<close>

text \<open>
  C7. Two pay-rewards batches with the same token and expiry, survey id arrays of equal
  length and participant arrays of equal length have the same proof digest, whatever the
  ids and addresses are.
\<close>

theorem reward_digest_binds_lengths_only:
  assumes "length sids1 = length sids2" and "length ps1 = length ps2"
  shows "rewardProof E s tok exp sids1 ps1 = rewardProof E s tok exp sids2 ps2"
  using assms by (simp add: rewardProof_def)

text \<open>Two batches of two pairs with nothing else in common have one digest.\<close>

theorem reward_digest_binds_lengths_only_witness:
  "rewardProof env0 (deployed 1) 77 200 [''S1'', ''S2''] [10, 11]
     = rewardProof env0 (deployed 1) 77 200 [''S9'', ''other''] [66, 10]"
  using reward_digest_binds_lengths_only [of "[''S1'', ''S2'']" "[''S9'', ''other'']" "[10, 11]" "[66, 10]"
      env0 "deployed 1" 77 200]
  by simp

subsection \<open>C8: a cancel checks the survey before the proof\<close>

text \<open>
  C8. In the cancel flow the four checks of the survey (it exists, it is not canceled, the
  caller is its creator or a manager, not all participants are rewarded) come before the
  proof is validated: when one of them fails the cancel fails with the error of the first
  failing check, whatever the proof is, the delivery reverts, and the one-time token is as
  it was.
\<close>

theorem cancel_checks_survey_before_proof:
  "(surveyCreator (surveys s sid) = 0
      \<longrightarrow> handleCancelSurvey E s sg tok exp sid = Inl Quizzler__SurveyDoesNotExist)
   \<and> (surveyCreator (surveys s sid) \<noteq> 0 \<and> isCanceled (surveys s sid)
      \<longrightarrow> handleCancelSurvey E s sg tok exp sid = Inl Quizzler__SurveyAlreadyCanceled)
   \<and> (surveyCreator (surveys s sid) \<noteq> 0 \<and> \<not> isCanceled (surveys s sid)
       \<and> msg_sender E \<noteq> surveyCreator (surveys s sid) \<and> \<not> managers s (msg_sender E)
      \<longrightarrow> handleCancelSurvey E s sg tok exp sid = Inl Quizzler__OnlyCreatorOrManager)
   \<and> (surveyCreator (surveys s sid) \<noteq> 0 \<and> \<not> isCanceled (surveys s sid)
       \<and> (msg_sender E = surveyCreator (surveys s sid) \<or> managers s (msg_sender E))
       \<and> participantsLimit (surveys s sid) \<le> participantsRewarded (surveys s sid)
      \<longrightarrow> handleCancelSurvey E s sg tok exp sid = Inl Quizzler__AllParticipantsRewarded)
   \<and> (surveyCreator (surveys s sid) = 0 \<or> isCanceled (surveys s sid)
       \<or> (msg_sender E \<noteq> surveyCreator (surveys s sid) \<and> \<not> managers s (msg_sender E))
       \<or> participantsLimit (surveys s sid) \<le> participantsRewarded (surveys s sid)
      \<longrightarrow> isl (execute_impl E s c sc sa (Payload i (CancelArgs sg tok exp sid)))
          \<and> transact E s (Execute c sc sa (Payload i (CancelArgs sg tok exp sid))) = s
          \<and> proofTokens (transact E s (Execute c sc sa (Payload i (CancelArgs sg tok exp sid)))) tok
              = proofTokens s tok)"
proof -
  have 1: "handleCancelSurvey E s sg tok exp sid = Inl Quizzler__SurveyDoesNotExist"
    if "surveyCreator (surveys s sid) = 0"
    using that by (simp add: handleCancelSurvey_def)
  have 2: "handleCancelSurvey E s sg tok exp sid = Inl Quizzler__SurveyAlreadyCanceled"
    if "surveyCreator (surveys s sid) \<noteq> 0" "isCanceled (surveys s sid)"
    using that by (simp add: handleCancelSurvey_def)
  have 3: "handleCancelSurvey E s sg tok exp sid = Inl Quizzler__OnlyCreatorOrManager"
    if "surveyCreator (surveys s sid) \<noteq> 0" "\<not> isCanceled (surveys s sid)"
      "msg_sender E \<noteq> surveyCreator (surveys s sid)" "\<not> managers s (msg_sender E)"
    using that by (simp add: handleCancelSurvey_def)
  have 4: "handleCancelSurvey E s sg tok exp sid = Inl Quizzler__AllParticipantsRewarded"
    if "surveyCreator (surveys s sid) \<noteq> 0" "\<not> isCanceled (surveys s sid)"
      "msg_sender E = surveyCreator (surveys s sid) \<or> managers s (msg_sender E)"
      "participantsLimit (surveys s sid) \<le> participantsRewarded (surveys s sid)"
    using that by (auto simp add: handleCancelSurvey_def)
  have 5: "isl (execute_impl E s c sc sa (Payload i (CancelArgs sg tok exp sid)))"
    if "surveyCreator (surveys s sid) = 0 \<or> isCanceled (surveys s sid)
       \<or> (msg_sender E \<noteq> surveyCreator (surveys s sid) \<and> \<not> managers s (msg_sender E))
       \<or> participantsLimit (surveys s sid) \<le> participantsRewarded (surveys s sid)"
  proof -
    from that have "\<exists>e. handleCancelSurvey E s sg tok exp sid = Inl e"
      by (auto simp add: handleCancelSurvey_def)
    then show ?thesis by (auto dest: execute_cancel_error)
  qed
  have 6: "transact E s (Execute c sc sa (Payload i (CancelArgs sg tok exp sid))) = s"
    if "isl (execute_impl E s c sc sa (Payload i (CancelArgs sg tok exp sid)))"
    using that by (simp add: transact_failed)
  show ?thesis
  proof (intro conjI impI)
    assume "surveyCreator (surveys s sid) = 0"
    then show "handleCancelSurvey E s sg tok exp sid = Inl Quizzler__SurveyDoesNotExist"
      by (rule 1)
  next
    assume "surveyCreator (surveys s sid) \<noteq> 0 \<and> isCanceled (surveys s sid)"
    then show "handleCancelSurvey E s sg tok exp sid = Inl Quizzler__SurveyAlreadyCanceled"
      using 2 by simp
  next
    assume "surveyCreator (surveys s sid) \<noteq> 0 \<and> \<not> isCanceled (surveys s sid)
       \<and> msg_sender E \<noteq> surveyCreator (surveys s sid) \<and> \<not> managers s (msg_sender E)"
    then show "handleCancelSurvey E s sg tok exp sid = Inl Quizzler__OnlyCreatorOrManager"
      using 3 by simp
  next
    assume "surveyCreator (surveys s sid) \<noteq> 0 \<and> \<not> isCanceled (surveys s sid)
       \<and> (msg_sender E = surveyCreator (surveys s sid) \<or> managers s (msg_sender E))
       \<and> participantsLimit (surveys s sid) \<le> participantsRewarded (surveys s sid)"
    then show "handleCancelSurvey E s sg tok exp sid = Inl Quizzler__AllParticipantsRewarded"
      using 4 by simp
  next
    assume a: "surveyCreator (surveys s sid) = 0 \<or> isCanceled (surveys s sid)
       \<or> (msg_sender E \<noteq> surveyCreator (surveys s sid) \<and> \<not> managers s (msg_sender E))
       \<or> participantsLimit (surveys s sid) \<le> participantsRewarded (surveys s sid)"
    show "isl (execute_impl E s c sc sa (Payload i (CancelArgs sg tok exp sid)))"
      using a by (rule 5)
    then have "transact E s (Execute c sc sa (Payload i (CancelArgs sg tok exp sid))) = s"
      by (rule 6)
    then show "transact E s (Execute c sc sa (Payload i (CancelArgs sg tok exp sid))) = s"
      and "proofTokens (transact E s (Execute c sc sa (Payload i (CancelArgs sg tok exp sid)))) tok
              = proofTokens s tok"
      by simp_all
  qed
qed

text \<open>
  Each of the four checks stops a cancel whose proof is valid (token 77 unused, expiry 200
  after the clock, a signature of a manager); the token is still unused afterwards.
\<close>

theorem cancel_checks_survey_before_proof_witness:
  "handleCancelSurvey env0 (deployed 1) [1, 2] 77 200 ''S2'' = Inl Quizzler__SurveyDoesNotExist
   \<and> handleCancelSurvey env0 st_S2_canceled [1, 2] 77 200 ''S2'' = Inl Quizzler__SurveyAlreadyCanceled
   \<and> handleCancelSurvey (env0\<lparr>msg_sender := 8\<rparr>) st_S2 [1, 2] 77 200 ''S2''
        = Inl Quizzler__OnlyCreatorOrManager
   \<and> handleCancelSurvey env0 st_S2_full [1, 2] 77 200 ''S2'' = Inl Quizzler__AllParticipantsRewarded
   \<and> proofTokens (transact env0 st_S2_full
        (Execute 3 ''agoric'' ''sender'' (Payload 1 (CancelArgs [1, 2] 77 200 ''S2'')))) 77
       = proofTokens st_S2_full 77"
proof -
  have 1: "handleCancelSurvey env0 (deployed 1) [1, 2] 77 200 ''S2'' = Inl Quizzler__SurveyDoesNotExist"
    using deployed_no_S2 cancel_checks_survey_before_proof [of "deployed 1" "''S2''" env0 "[1, 2]" 77 200 3
        "''agoric''" "''sender''" 1]
    by simp
  have 2: "handleCancelSurvey env0 st_S2_canceled [1, 2] 77 200 ''S2'' = Inl Quizzler__SurveyAlreadyCanceled"
    using st_S2_canceled_facts cancel_checks_survey_before_proof [of st_S2_canceled "''S2''" env0 "[1, 2]" 77 200 3
        "''agoric''" "''sender''" 1]
    by simp
  have 3: "handleCancelSurvey (env0\<lparr>msg_sender := 8\<rparr>) st_S2 [1, 2] 77 200 ''S2''
        = Inl Quizzler__OnlyCreatorOrManager"
    using st_S2_stranger cancel_checks_survey_before_proof [of st_S2 "''S2''" "env0\<lparr>msg_sender := 8\<rparr>" "[1, 2]" 77 200
        3 "''agoric''" "''sender''" 1]
    by simp
  have 4: "handleCancelSurvey env0 st_S2_full [1, 2] 77 200 ''S2'' = Inl Quizzler__AllParticipantsRewarded
    \<and> proofTokens (transact env0 st_S2_full
        (Execute 3 ''agoric'' ''sender'' (Payload 1 (CancelArgs [1, 2] 77 200 ''S2'')))) 77
       = proofTokens st_S2_full 77"
    using st_S2_full_facts cancel_checks_survey_before_proof [of st_S2_full "''S2''" env0 "[1, 2]" 77 200 3
        "''agoric''" "''sender''" 1]
    by simp
  show ?thesis using 1 2 3 4 by simp
qed

subsection \<open>C9: the finished signal is emitted once\<close>

text \<open>
  C9. In every ledger reached from the deployed contract by calls whose caller is not the
  zero address, the events hold \<open>SurveyFinished\<close> of a survey exactly once when its
  rewarded count has reached its positive limit, and not at all otherwise. The signal is
  emitted by the payment whose increment makes the count equal the limit; once it is there,
  no later call adds another; and a payment for a survey whose count equals its limit fails
  with \<open>AllParticipantsRewarded\<close>.
\<close>

theorem finished_emitted_once:
  assumes "\<forall>(E, t) \<in> set (txs @ txs2). msg_sender E \<noteq> 0"
  shows "count_list (emitted (run txs (deployed d))) (SurveyFinished sid) =
           (if 0 < participantsLimit (surveys (run txs (deployed d)) sid)
               \<and> participantsRewarded (surveys (run txs (deployed d)) sid)
                   = participantsLimit (surveys (run txs (deployed d)) sid)
            then 1 else 0)
    \<and> (\<exists>ys. emitted (run (txs @ txs2) (deployed d)) = emitted (run txs (deployed d)) @ ys
           \<and> (count_list (emitted (run txs (deployed d))) (SurveyFinished sid) = 1
                \<longrightarrow> count_list ys (SurveyFinished sid) = 0))
    \<and> (participantsRewarded (surveys (run txs (deployed d)) sid)
          = participantsLimit (surveys (run txs (deployed d)) sid)
        \<longrightarrow> rewardStep E (run txs (deployed d)) sid p = Inl Quizzler__AllParticipantsRewarded)
    \<and> (\<forall>s'. rewardStep E (run txs (deployed d)) sid p = Inr s' \<longrightarrow>
          participantsRewarded (surveys s' sid)
            = participantsRewarded (surveys (run txs (deployed d)) sid) + 1
          \<and> emitted s' = emitted (run txs (deployed d)) @
               [ERC20Transfer (rewardToken (surveys (run txs (deployed d)) sid)) p
                  (rewardAmount (surveys (run txs (deployed d)) sid)),
                RewardPaid p sid (rewardAmount (surveys (run txs (deployed d)) sid))] @
               (if participantsRewarded (surveys s' sid) = participantsLimit (surveys s' sid)
                then [SurveyFinished sid] else []))"
proof -
  let ?s = "run txs (deployed d)"
  from assms have a1: "\<forall>(E, t) \<in> set txs. msg_sender E \<noteq> 0"
    and a2: "\<forall>(E, t) \<in> set txs2. msg_sender E \<noteq> 0"
    by auto
  have inv: "finished_inv ?s sid"
    by (rule run_finished_inv [OF deployed_finished_inv a1])
  have inv2: "finished_inv (run txs2 ?s) sid"
    by (rule run_finished_inv [OF inv a2])
  have 1: "count_list (emitted ?s) (SurveyFinished sid) =
           (if 0 < participantsLimit (surveys ?s sid)
               \<and> participantsRewarded (surveys ?s sid) = participantsLimit (surveys ?s sid)
            then 1 else 0)"
    using inv by (simp add: finished_inv_def)
  obtain ys where ys: "emitted (run txs2 ?s) = emitted ?s @ ys"
    using run_emitted_grows [of txs2 ?s] by blast
  have le: "count_list (emitted (run txs2 ?s)) (SurveyFinished sid) \<le> 1"
    using inv2 by (simp add: finished_inv_def)
  have 2: "\<exists>ys. emitted (run (txs @ txs2) (deployed d)) = emitted ?s @ ys
           \<and> (count_list (emitted ?s) (SurveyFinished sid) = 1
                \<longrightarrow> count_list ys (SurveyFinished sid) = 0)"
    using ys le by (auto simp: run_append)
  have 3: "rewardStep E ?s sid p = Inl Quizzler__AllParticipantsRewarded"
    if "participantsRewarded (surveys ?s sid) = participantsLimit (surveys ?s sid)"
    using inv that by (auto simp: finished_inv_def rewardStep_def)
  have 4: "participantsRewarded (surveys s' sid) = participantsRewarded (surveys ?s sid) + 1
          \<and> emitted s' = emitted ?s @
               [ERC20Transfer (rewardToken (surveys ?s sid)) p (rewardAmount (surveys ?s sid)),
                RewardPaid p sid (rewardAmount (surveys ?s sid))] @
               (if participantsRewarded (surveys s' sid) = participantsLimit (surveys s' sid)
                then [SurveyFinished sid] else [])"
    if "rewardStep E ?s sid p = Inr s'" for s'
    by (simp add: rewardStep_Inr(4,6) [OF that])
  from 1 2 3 4 show ?thesis by blast
qed

text \<open>
  Survey \<open>S1\<close> of limit 2: after two payments the signal has been emitted once, a third
  payment step fails, and a third delivery leaves the signal emitted once.
\<close>

theorem finished_emitted_once_witness:
  "count_list (emitted (run [(env0, create_S1), (env0, pay_S1 78 10), (env0, pay_S1 79 11)]
       (deployed 1))) (SurveyFinished ''S1'') = 1
   \<and> rewardStep env0 (run [(env0, create_S1), (env0, pay_S1 78 10), (env0, pay_S1 79 11)]
       (deployed 1)) ''S1'' 12 = Inl Quizzler__AllParticipantsRewarded
   \<and> count_list (emitted (run ([(env0, create_S1), (env0, pay_S1 78 10), (env0, pay_S1 79 11)]
       @ [(env0, pay_S1 80 12)]) (deployed 1))) (SurveyFinished ''S1'') = 1"
proof -
  have h: "\<forall>(E, t) \<in> set ([(env0, create_S1), (env0, pay_S1 78 10), (env0, pay_S1 79 11)]
             @ [(env0, pay_S1 80 12)]). msg_sender E \<noteq> 0"
    by (simp add: env0_def)
  from finished_emitted_once [OF h, where d = 1 and sid = "''S1''" and E = env0 and p = 12]
    ledger_after_two_payments
  show ?thesis by auto
qed

subsection \<open>C10: the creator of a survey is the caller, not the decoded owner\<close>

text \<open>
  C10. A create delivery from the trusted source with a valid proof signed by a manager,
  a free survey id, no funding asked and a transfer that returns does return; and every
  create delivery that returns has stored the record whose creator is the caller of the
  execution and whose reward token is the gateway's. The owner decoded from the payload
  reaches the proof digest only: another owner with the same digest gives the same ledger.
  In every ledger reached afterwards by any calls (the caller not being the zero address)
  the stored creator is still that caller; a cancel by a caller who is neither that address
  nor a manager fails with \<open>OnlyCreatorOrManager\<close>, also when the caller is the decoded
  owner; a cancel by that address or a manager, of the open survey below its limit, with a
  valid proof and a transfer that returns, returns and has sent the refund to that address;
  and every cancel that returns was called by that address or a manager and has sent its
  refund to that address.
\<close>

theorem creator_is_caller_not_owner:
  "(keccak256 E (enc_string sc) = AGORIC_CHAIN_HASH E
      \<and> keccak256 E (enc_string sa) = SENDER_HASH E
      \<and> preAuthValidations E s (createProof E s tok exp own sid lim rew h gas) tok exp sg
           = Inr (a, s1)
      \<and> managers s a \<and> surveyCreator (surveys s sid) = 0
      \<and> unat lim * unat rew + unat gas = 0
      \<and> transfer_returns E (tokenAddresses E tsym) (gasStation s) gas
     \<longrightarrow> (\<exists>s'. call E s (ExecuteWithToken c sc sa
                  (Payload CREATE_SURVEY_MSG_ID (CreateArgs sg tok exp own sid lim rew h gas))
                  tsym 0) = Inr s'))
   \<and> (\<forall>s'. call E s (ExecuteWithToken c sc sa
                (Payload i (CreateArgs sg tok exp own sid lim rew h gas)) tsym amount) = Inr s'
        \<longrightarrow>
          surveys s' sid =
            \<lparr>surveyCreator = msg_sender E, participantsLimit = lim, rewardAmount = rew,
             participantsRewarded = 0, surveyHash = h, rewardToken = tokenAddresses E tsym,
             isCanceled = False\<rparr>
          \<and> (createProof E s tok exp own2 sid lim rew h gas
                = createProof E s tok exp own sid lim rew h gas
              \<longrightarrow> call E s (ExecuteWithToken c sc sa
                     (Payload i (CreateArgs sg tok exp own2 sid lim rew h gas)) tsym amount) = Inr s')
          \<and> (msg_sender E \<noteq> 0 \<longrightarrow>
                surveyCreator (surveys (run txs s') sid) = msg_sender E
              \<and> rewardToken (surveys (run txs s') sid) = tokenAddresses E tsym
              \<and> (msg_sender E2 \<noteq> msg_sender E \<and> \<not> managers (run txs s') (msg_sender E2)
                    \<and> \<not> isCanceled (surveys (run txs s') sid)
                  \<longrightarrow> handleCancelSurvey E2 (run txs s') sg2 tok2 exp2 sid
                        = Inl Quizzler__OnlyCreatorOrManager)
              \<and> ((msg_sender E2 = msg_sender E \<or> managers (run txs s') (msg_sender E2))
                    \<and> \<not> isCanceled (surveys (run txs s') sid)
                    \<and> participantsRewarded (surveys (run txs s') sid) < lim
                    \<and> preAuthValidations E2 (run txs s')
                          (cancelProof E2 (run txs s') tok2 exp2 sid) tok2 exp2 sg2 = Inr (a2, s2)
                    \<and> managers (run txs s') a2
                    \<and> transfer_returns E2 (tokenAddresses E tsym) (msg_sender E)
                          (lim * rew - participantsRewarded (surveys (run txs s') sid) * rew)
                  \<longrightarrow> (\<exists>s3. handleCancelSurvey E2 (run txs s') sg2 tok2 exp2 sid = Inr (True, s3)
                        \<and> emitted s3 = emitted (run txs s') @
                            [ERC20Transfer (tokenAddresses E tsym) (msg_sender E)
                               (lim * rew - participantsRewarded (surveys (run txs s') sid) * rew),
                             SurveyCanceled sid]))
              \<and> (\<forall>ok3 s3. handleCancelSurvey E2 (run txs s') sg2 tok2 exp2 sid = Inr (ok3, s3)
                  \<longrightarrow> (msg_sender E2 = msg_sender E \<or> managers (run txs s') (msg_sender E2))
                      \<and> (\<exists>amt. emitted s3 = emitted (run txs s') @
                            [ERC20Transfer (tokenAddresses E tsym) (msg_sender E) amt,
                             SurveyCanceled sid]))))"
proof (intro conjI allI impI)
  assume "keccak256 E (enc_string sc) = AGORIC_CHAIN_HASH E
      \<and> keccak256 E (enc_string sa) = SENDER_HASH E
      \<and> preAuthValidations E s (createProof E s tok exp own sid lim rew h gas) tok exp sg
           = Inr (a, s1)
      \<and> managers s a \<and> surveyCreator (surveys s sid) = 0
      \<and> unat lim * unat rew + unat gas = 0
      \<and> transfer_returns E (tokenAddresses E tsym) (gasStation s) gas"
  then show "\<exists>s'. call E s (ExecuteWithToken c sc sa
                  (Payload CREATE_SURVEY_MSG_ID (CreateArgs sg tok exp own sid lim rew h gas))
                  tsym 0) = Inr s'"
    using create_returns [of E sc sa s tok exp own sid lim rew h gas sg a s1 tsym c] by simp
next
  fix s'
  assume ret: "call E s (ExecuteWithToken c sc sa
                (Payload i (CreateArgs sg tok exp own sid lim rew h gas)) tsym amount) = Inr s'"
  let ?pl = "Payload i (CreateArgs sg tok exp own sid lim rew h gas)"
  let ?ta = "tokenAddresses E tsym"
  from ret have x: "executeWithToken_impl E s c sc sa ?pl tsym amount = Inr s'" by simp
  from executeWithToken_Inr [OF x] obtain sh where
    am: "amount = 0" and hc: "handleCreateSurvey E s ?pl amount ?ta = Inr (True, sh)"
    and s': "s' = sh\<lparr>emitted := emitted sh @ [ExecuteEventCompleted c CREATE_SURVEY_MSG_ID]\<rparr>"
    by auto
  note f = handleCreate_Inr [OF hc]
  show rec: "surveys s' sid =
            \<lparr>surveyCreator = msg_sender E, participantsLimit = lim, rewardAmount = rew,
             participantsRewarded = 0, surveyHash = h, rewardToken = ?ta, isCanceled = False\<rparr>"
    by (simp add: s' f(4))
  {
    assume d: "createProof E s tok exp own2 sid lim rew h gas
                = createProof E s tok exp own sid lim rew h gas"
    have "executeWithToken_impl E s c sc sa
            (Payload i (CreateArgs sg tok exp own2 sid lim rew h gas)) tsym amount
          = executeWithToken_impl E s c sc sa ?pl tsym amount"
      by (simp add: executeWithToken_impl_def d)
    with x show "call E s (ExecuteWithToken c sc sa
                     (Payload i (CreateArgs sg tok exp own2 sid lim rew h gas)) tsym amount) = Inr s'"
      by simp
  }
  assume snd: "msg_sender E \<noteq> 0"
  let ?t = "run txs s'"
  from rec snd have ex: "surveyCreator (surveys s' sid) \<noteq> 0" by simp
  note k = run_keeps_record [OF ex, of txs]
  from k rec show cr: "surveyCreator (surveys ?t sid) = msg_sender E" by simp
  from k rec show tk: "rewardToken (surveys ?t sid) = ?ta" by simp
  from k rec have lm: "participantsLimit (surveys ?t sid) = lim"
    and rw: "rewardAmount (surveys ?t sid) = rew" by simp_all
  {
    assume "msg_sender E2 \<noteq> msg_sender E \<and> \<not> managers ?t (msg_sender E2)
                    \<and> \<not> isCanceled (surveys ?t sid)"
    with cr snd show "handleCancelSurvey E2 ?t sg2 tok2 exp2 sid = Inl Quizzler__OnlyCreatorOrManager"
      by (simp add: handleCancelSurvey_def)
  }
  {
    assume h: "(msg_sender E2 = msg_sender E \<or> managers ?t (msg_sender E2))
                    \<and> \<not> isCanceled (surveys ?t sid)
                    \<and> participantsRewarded (surveys ?t sid) < lim
                    \<and> preAuthValidations E2 ?t (cancelProof E2 ?t tok2 exp2 sid) tok2 exp2 sg2
                        = Inr (a2, s2)
                    \<and> managers ?t a2
                    \<and> transfer_returns E2 ?ta (msg_sender E)
                          (lim * rew - participantsRewarded (surveys ?t sid) * rew)"
    from handleCreate_needs_amount [OF hc] am have "unat lim * unat rew = 0" by simp
    then have nov: "unat (participantsLimit (surveys ?t sid)) * unat (rewardAmount (surveys ?t sid))
        < 2 ^ 256"
      by (simp only: lm rw) simp
    from cancel_returns [of ?t sid E2 tok2 exp2 sg2 a2 s2, OF _ _ _ _ _ _ nov] h cr tk lm rw snd
    show "\<exists>s3. handleCancelSurvey E2 ?t sg2 tok2 exp2 sid = Inr (True, s3)
                        \<and> emitted s3 = emitted ?t @
                            [ERC20Transfer ?ta (msg_sender E)
                               (lim * rew - participantsRewarded (surveys ?t sid) * rew),
                             SurveyCanceled sid]"
      by simp
  }
  {
    fix ok3 s3
    assume c3: "handleCancelSurvey E2 ?t sg2 tok2 exp2 sid = Inr (ok3, s3)"
    from handleCancel_Inr(4) [OF c3] cr
    show "msg_sender E2 = msg_sender E \<or> managers ?t (msg_sender E2)" by simp
    from handleCancel_Inr(7) [OF c3] cr tk
    show "\<exists>amt. emitted s3 = emitted ?t @
                            [ERC20Transfer ?ta (msg_sender E) amt, SurveyCanceled sid]"
      by auto
  }
qed

text \<open>
  The create of \<open>S1\<close> names address 4 as owner and is executed by address 9. The delivery
  returns and the creator stored is 9, also after a payment; in that ledger address 4 may
  not cancel, and the cancel by address 9 returns with its refund sent to address 9.
\<close>

theorem creator_is_caller_not_owner_witness:
  "(\<exists>s'. call env0 (deployed 1) (ExecuteWithToken 3 ''agoric'' ''sender''
        (Payload 0 (CreateArgs [1, 2] 77 200 4 ''S1'' 2 0 0 0)) ''aUSDC'' 0) = Inr s'
      \<and> surveyCreator (surveys s' ''S1'') = 9
      \<and> surveyCreator (surveys (run [(env0, pay_S1 78 10)] s') ''S1'') = 9
      \<and> handleCancelSurvey (env0\<lparr>msg_sender := 4\<rparr>) (run [(env0, pay_S1 78 10)] s')
            [1, 2] 79 200 ''S1'' = Inl Quizzler__OnlyCreatorOrManager
      \<and> (\<exists>s3. handleCancelSurvey env0 (run [(env0, pay_S1 78 10)] s') [1, 2] 79 200 ''S1''
              = Inr (True, s3)
            \<and> emitted s3 = emitted (run [(env0, pay_S1 78 10)] s') @
                [ERC20Transfer 5 9 0, SurveyCanceled ''S1'']))"
proof -
  let ?tx = "ExecuteWithToken 3 ''agoric'' ''sender''
        (Payload 0 (CreateArgs [1, 2] 77 200 4 ''S1'' 2 0 0 0)) ''aUSDC'' 0"
  let ?s' = "transact env0 (deployed 1) create_S1"
  let ?t = "run [(env0, pay_S1 78 10)] ?s'"
  let ?s1 = "(deployed 1)\<lparr>proofTokens := (proofTokens (deployed 1))(77 := True)\<rparr>"
  let ?s2 = "?t\<lparr>proofTokens := (proofTokens ?t)(79 := True)\<rparr>"
  note T = creator_is_caller_not_owner [where E = env0 and s = "deployed 1" and c = 3
      and sc = "''agoric''" and sa = "''sender''" and i = 0 and sg = "[1, 2]" and tok = 77
      and exp = 200 and own = 4 and sid = "''S1''" and lim = 2 and rew = 0 and h = 0 and gas = 0
      and tsym = "''aUSDC''" and amount = 0 and txs = "[(env0, pay_S1 78 10)]"
      and ?sg2.0 = "[1, 2]" and ?tok2.0 = 79 and ?exp2.0 = 200 and a = 1 and ?s1.0 = ?s1
      and ?a2.0 = 1 and ?s2.0 = ?s2]
  note T4 = T [where ?E2.0 = "env0\<lparr>msg_sender := 4\<rparr>"]
  note T9 = T [where ?E2.0 = env0]
  have en: "keccak256 env0 (enc_string ''agoric'') = AGORIC_CHAIN_HASH env0
      \<and> keccak256 env0 (enc_string ''sender'') = SENDER_HASH env0
      \<and> preAuthValidations env0 (deployed 1)
            (createProof env0 (deployed 1) 77 200 4 ''S1'' 2 0 0 0) 77 200 [1, 2]
           = Inr (1, ?s1)
      \<and> managers (deployed 1) 1 \<and> surveyCreator (surveys (deployed 1) ''S1'') = 0
      \<and> unat (2::uint256) * unat (0::uint256) + unat (0::uint256) = 0
      \<and> transfer_returns env0 (tokenAddresses env0 ''aUSDC'') (gasStation (deployed 1)) 0"
    using create_S1_proof_valid
    by (simp add: env0_def AGORIC_CHAIN_HASH_def enc_string_def deployed_def)
  from T9 [THEN conjunct1, THEN mp, OF en]
  obtain s' where "call env0 (deployed 1) ?tx = Inr s'"
    by (auto simp: CREATE_SURVEY_MSG_ID_def)
  then have ret: "call env0 (deployed 1) ?tx = Inr ?s'"
    by (simp add: transact_def create_S1_def)
  have snd: "msg_sender env0 \<noteq> 0" by (simp add: env0_def)
  note B4 = T4 [THEN conjunct2, THEN spec, THEN mp, OF ret]
  note B9 = T9 [THEN conjunct2, THEN spec, THEN mp, OF ret]
  from B9 have 1: "surveyCreator (surveys ?s' ''S1'') = 9" by (simp add: env0_def)
  note L4 = B4 [THEN conjunct2, THEN conjunct2, THEN mp, OF snd]
  note L9 = B9 [THEN conjunct2, THEN conjunct2, THEN mp, OF snd]
  from L9 have 2: "surveyCreator (surveys ?t ''S1'') = 9"
    by (simp add: env0_def)
  have st: "msg_sender (env0\<lparr>msg_sender := 4\<rparr>) \<noteq> msg_sender env0
      \<and> \<not> managers ?t (msg_sender (env0\<lparr>msg_sender := 4\<rparr>))
      \<and> \<not> isCanceled (surveys ?t ''S1'')"
    using ledger_after_one_payment(1,2) by (simp add: env0_def)
  from L4 [THEN conjunct2, THEN conjunct2, THEN conjunct1, THEN mp, OF st]
  have 3: "handleCancelSurvey (env0\<lparr>msg_sender := 4\<rparr>) ?t
            [1, 2] 79 200 ''S1'' = Inl Quizzler__OnlyCreatorOrManager" .
  have cr: "(msg_sender env0 = msg_sender env0 \<or> managers ?t (msg_sender env0))
      \<and> \<not> isCanceled (surveys ?t ''S1'')
      \<and> participantsRewarded (surveys ?t ''S1'') < 2
      \<and> preAuthValidations env0 ?t (cancelProof env0 ?t 79 200 ''S1'') 79 200 [1, 2]
          = Inr (1, ?s2)
      \<and> managers ?t 1
      \<and> transfer_returns env0 (tokenAddresses env0 ''aUSDC'') (msg_sender env0)
            (2 * 0 - participantsRewarded (surveys ?t ''S1'') * 0)"
    using ledger_after_one_payment(1,2) cancel_S1_proof_valid
    by (simp add: env0_def word_less_nat_alt)
  from L9 [THEN conjunct2, THEN conjunct2, THEN conjunct2, THEN conjunct1, THEN mp, OF cr]
  have 4: "\<exists>s3. handleCancelSurvey env0 ?t [1, 2] 79 200 ''S1'' = Inr (True, s3)
            \<and> emitted s3 = emitted ?t @ [ERC20Transfer 5 9 0, SurveyCanceled ''S1'']"
    using ledger_after_one_payment(1) by (simp add: env0_def)
  from ret 1 2 3 4 show ?thesis by (intro exI [of _ ?s']) simp
qed

end
